theory Spec2Isabelle
  imports Complex_Main
begin

section \<open>Strings and characters\<close>

text \<open>
  A JavaScript string is a sequence of UTF-16 code units; a code unit is modelled by its
  number. Character literals of the source are written with \<open>lit\<close> (ASCII) or by their
  number (233 is e with acute accent, 201 its capital, 8211 and 8212 the en and em dash,
  8226 the bullet).

  Case mapping is modelled on Basic Latin, the Latin-1 Supplement and the ligature OE,
  the letters that the source's patterns and keyword lists contain; every other code unit
  is left unchanged by it.
\<close>

type_synonym jstring = "int list"

definition lit :: "string \<Rightarrow> jstring" where
  "lit s = map of_char s"

definition is_digit :: "int \<Rightarrow> bool" where
  "is_digit c = (48 \<le> c \<and> c \<le> 57)"

definition is_word :: "int \<Rightarrow> bool" where
  "is_word c = ((97 \<le> c \<and> c \<le> 122) \<or> (65 \<le> c \<and> c \<le> 90) \<or> is_digit c \<or> c = 95)"

definition is_space :: "int \<Rightarrow> bool" where
  "is_space c = (c = 32 \<or> (9 \<le> c \<and> c \<le> 13) \<or> c = 160 \<or> c = 5760 \<or> (8192 \<le> c \<and> c \<le> 8202)
      \<or> c = 8232 \<or> c = 8233 \<or> c = 8239 \<or> c = 8287 \<or> c = 12288 \<or> c = 65279)"

definition upper_cu :: "int \<Rightarrow> int" where
  "upper_cu c = (if 97 \<le> c \<and> c \<le> 122 then c - 32
     else if 224 \<le> c \<and> c \<le> 254 \<and> c \<noteq> 247 then c - 32
     else if c = 255 then 376 else if c = 181 then 924 else if c = 339 then 338 else c)"

definition lower_cu :: "int \<Rightarrow> int" where
  "lower_cu c = (if 65 \<le> c \<and> c \<le> 90 then c + 32
     else if 192 \<le> c \<and> c \<le> 222 \<and> c \<noteq> 215 then c + 32
     else if c = 376 then 255 else if c = 338 then 339 else c)"

definition toLowerCase :: "jstring \<Rightarrow> jstring" where
  "toLowerCase s = map lower_cu s"

definition toUpperCase :: "jstring \<Rightarrow> jstring" where
  "toUpperCase s = concat (map (\<lambda>c. if c = 223 then [83, 83] else [upper_cu c]) s)"

definition trim :: "jstring \<Rightarrow> jstring" where
  "trim s = rev (dropWhile is_space (rev (dropWhile is_space s)))"

fun split_on :: "int \<Rightarrow> jstring \<Rightarrow> jstring list" where
  "split_on sep [] = [[]]"
| "split_on sep (c # cs) =
     (if c = sep then [] # split_on sep cs
      else (case split_on sep cs of [] \<Rightarrow> [[c]] | w # ws \<Rightarrow> (c # w) # ws))"

fun join :: "jstring \<Rightarrow> jstring list \<Rightarrow> jstring" where
  "join sep [] = []"
| "join sep [x] = x"
| "join sep (x # xs) = x @ sep @ join sep xs"

fun starts_with :: "jstring \<Rightarrow> jstring \<Rightarrow> bool" where
  "starts_with [] s = True"
| "starts_with (p # ps) [] = False"
| "starts_with (p # ps) (c # cs) = (p = c \<and> starts_with ps cs)"

fun str_includes :: "jstring \<Rightarrow> jstring \<Rightarrow> bool" where
  "str_includes [] sub = (sub = [])"
| "str_includes (c # cs) sub = (starts_with sub (c # cs) \<or> str_includes cs sub)"

fun index_of :: "jstring \<Rightarrow> jstring \<Rightarrow> nat option" where
  "index_of [] sub = (if sub = [] then Some 0 else None)"
| "index_of (c # cs) sub =
     (if starts_with sub (c # cs) then Some 0 else map_option Suc (index_of cs sub))"

subsection \<open>Numbers\<close>

text \<open>
  A year is read by \<open>parseInt\<close> and printed by \<open>toString\<close>; a number that is not
  one is \<open>NaN\<close>, which every subtraction propagates and \<open>toString\<close> prints as such.
  The scores of the confidence computation are modelled as exact rationals.
\<close>

datatype jsnum = Num int | NaN

fun num_sub :: "jsnum \<Rightarrow> jsnum \<Rightarrow> jsnum" where
  "num_sub (Num a) (Num b) = Num (a - b)"
| "num_sub _ _ = NaN"

function digits_of :: "int \<Rightarrow> jstring" where
  "digits_of n = (if n < 10 then [48 + (if n < 0 then 0 else n)] else digits_of (n div 10) @ [48 + n mod 10])"
  by pat_completeness auto
termination
  by (relation "measure nat") auto

declare digits_of.simps [simp del]

fun toString :: "jsnum \<Rightarrow> jstring" where
  "toString NaN = lit ''NaN''"
| "toString (Num n) = (if n < 0 then 45 # digits_of (- n) else digits_of n)"

fun dec_value :: "int \<Rightarrow> jstring \<Rightarrow> int" where
  "dec_value acc [] = acc"
| "dec_value acc (c # cs) = dec_value (acc * 10 + (c - 48)) cs"

definition is_hex :: "int \<Rightarrow> bool" where
  "is_hex c = (is_digit c \<or> (97 \<le> c \<and> c \<le> 102) \<or> (65 \<le> c \<and> c \<le> 70))"

fun hex_value :: "int \<Rightarrow> jstring \<Rightarrow> int" where
  "hex_value acc [] = acc"
| "hex_value acc (c # cs) =
     hex_value (acc * 16 + (if is_digit c then c - 48 else if 97 \<le> c then c - 87 else c - 55)) cs"

definition parse_unsigned :: "jstring \<Rightarrow> jsnum" where
  "parse_unsigned s =
     (if starts_with (lit ''0x'') s \<or> starts_with (lit ''0X'') s
      then (let ds = takeWhile is_hex (drop 2 s) in if ds = [] then NaN else Num (hex_value 0 ds))
      else (let ds = takeWhile is_digit s in if ds = [] then NaN else Num (dec_value 0 ds)))"

fun num_neg :: "jsnum \<Rightarrow> jsnum" where
  "num_neg (Num a) = Num (- a)"
| "num_neg NaN = NaN"

definition parseInt :: "jstring \<Rightarrow> jsnum" where
  "parseInt s =
     (case dropWhile is_space s of
        [] \<Rightarrow> NaN
      | c # cs \<Rightarrow> if c = 45 then num_neg (parse_unsigned cs)
                 else if c = 43 then parse_unsigned cs
                 else parse_unsigned (c # cs))"

section \<open>Regular expressions\<close>

text \<open>
  The patterns of the source are written in a small abstract syntax, and matched by a
  backtracking matcher in continuation-passing style, as the language standard defines
  matching: a pattern is matched against the text from a position on, and its
  continuation decides whether the rest of the pattern matches; alternatives are tried in
  order, a greedy repetition tries one more iteration first, a lazy one tries its
  continuation first, and an iteration of a repetition that consumes nothing is refused.

  The state of a match is the previous code unit (for word boundaries and look-behind),
  the text that is left, and the captures. A repetition with a lower bound is written as
  that many copies followed by a repetition from zero (\<open>rep\<close>).
\<close>

definition canon :: "bool \<Rightarrow> int \<Rightarrow> int" where
  "canon ic c = (if ic then (let u = upper_cu c in if 128 \<le> c \<and> u < 128 then c else u) else c)"

datatype citem = CChar int | CRange int int | CDigit | CWord | CSpace

fun citem_has :: "citem \<Rightarrow> int \<Rightarrow> bool" where
  "citem_has (CChar a) c = (c = a)"
| "citem_has (CRange a b) c = (a \<le> c \<and> c \<le> b)"
| "citem_has CDigit c = is_digit c"
| "citem_has CWord c = is_word c"
| "citem_has CSpace c = is_space c"

definition cls_has :: "bool \<Rightarrow> citem list \<Rightarrow> int \<Rightarrow> bool" where
  "cls_has ic items c =
     (list_ex (\<lambda>it. citem_has it c) items
      \<or> (ic \<and> (list_ex (\<lambda>it. citem_has it (upper_cu c)) items
               \<or> list_ex (\<lambda>it. citem_has it (lower_cu c)) items)))"

datatype regex =
    Eps
  | Lit int
  | Cls bool "citem list"
  | Seq regex regex
  | Alt regex regex
  | Star "nat option" bool regex
  | Grp nat regex
  | Bol
  | Eol
  | WordB
  | NegAhead regex
  | NegBehind "citem list"

datatype mstate = MState (prev: "int option") (rest: jstring) (caps: "nat \<Rightarrow> jstring option")

fun rsize :: "regex \<Rightarrow> nat" where
  "rsize (Seq a b) = Suc (rsize a + rsize b)"
| "rsize (Alt a b) = Suc (rsize a + rsize b)"
| "rsize (Star mx g r) = Suc (rsize r)"
| "rsize (Grp i r) = Suc (rsize r)"
| "rsize (NegAhead r) = Suc (rsize r)"
| "rsize r = 0"

fun grps :: "regex \<Rightarrow> nat list" where
  "grps (Seq a b) = grps a @ grps b"
| "grps (Alt a b) = grps a @ grps b"
| "grps (Star mx g r) = grps r"
| "grps (Grp i r) = i # grps r"
| "grps (NegAhead r) = grps r"
| "grps r = []"

definition clear_caps :: "nat list \<Rightarrow> mstate \<Rightarrow> mstate" where
  "clear_caps gs x = MState (prev x) (rest x) (\<lambda>i. if List.member gs i then None else caps x i)"

definition dec_max :: "nat option \<Rightarrow> nat option" where
  "dec_max mx = (case mx of None \<Rightarrow> None | Some n \<Rightarrow> Some (n - 1))"

function (sequential) m :: "bool \<Rightarrow> regex \<Rightarrow> (mstate \<Rightarrow> mstate option) \<Rightarrow> mstate \<Rightarrow> mstate option" where
  "m ic Eps k x = k x"
| "m ic (Lit c) k x =
     (case rest x of [] \<Rightarrow> None
      | d # ds \<Rightarrow> if canon ic d = canon ic c then k (MState (Some d) ds (caps x)) else None)"
| "m ic (Cls neg items) k x =
     (case rest x of [] \<Rightarrow> None
      | d # ds \<Rightarrow> if cls_has ic items d \<noteq> neg then k (MState (Some d) ds (caps x)) else None)"
| "m ic (Seq a b) k x = m ic a (\<lambda>y. m ic b k y) x"
| "m ic (Alt a b) k x = (case m ic a k x of Some z \<Rightarrow> Some z | None \<Rightarrow> m ic b k x)"
| "m ic (Star mx g r) k x =
     (if mx = Some 0 then k x
      else if g then
        (case m ic r (\<lambda>y. if length (rest y) < length (rest x)
                          then m ic (Star (dec_max mx) g r) k y else None)
                (clear_caps (grps r) x) of
           Some z \<Rightarrow> Some z
         | None \<Rightarrow> k x)
      else
        (case k x of
           Some z \<Rightarrow> Some z
         | None \<Rightarrow> m ic r (\<lambda>y. if length (rest y) < length (rest x)
                                then m ic (Star (dec_max mx) g r) k y else None)
                      (clear_caps (grps r) x)))"
| "m ic (Grp i r) k x =
     m ic r (\<lambda>y. k (MState (prev y) (rest y)
                      ((caps y)(i \<mapsto> take (length (rest x) - length (rest y)) (rest x))))) x"
| "m ic Bol k x = (if prev x = None then k x else None)"
| "m ic Eol k x = (if rest x = [] then k x else None)"
| "m ic WordB k x =
     (if (case prev x of None \<Rightarrow> False | Some c \<Rightarrow> is_word c)
         \<noteq> (case rest x of [] \<Rightarrow> False | c # _ \<Rightarrow> is_word c)
      then k x else None)"
| "m ic (NegAhead r) k x = (case m ic r Some x of None \<Rightarrow> k x | Some _ \<Rightarrow> None)"
| "m ic (NegBehind items) k x =
     (case prev x of None \<Rightarrow> k x | Some c \<Rightarrow> if cls_has ic items c then None else k x)"
  by pat_completeness auto
termination
  by (relation "inv_image (less_than <*lex*> less_than) (\<lambda>(ic, r, k, x). (rsize r, length (rest x)))")
     (auto simp: clear_caps_def)

text \<open>
  The leftmost match: the matcher is tried at each position in turn. The search returns
  the text from the start of the match on, and the state the match ended in.
\<close>

fun search_from :: "bool \<Rightarrow> regex \<Rightarrow> int option \<Rightarrow> jstring \<Rightarrow> (jstring \<times> mstate) option" where
  "search_from ic re p s =
     (case m ic re Some (MState p s (\<lambda>_. None)) of
        Some y \<Rightarrow> Some (s, y)
      | None \<Rightarrow> (case s of [] \<Rightarrow> None | c # cs \<Rightarrow> search_from ic re (Some c) cs))"

declare search_from.simps [simp del]

text \<open>
  The result of a successful match: the text before it, the matched text, the captures
  and the text after it.
\<close>

record rmatch =
  m_pre :: jstring
  m_whole :: jstring
  m_groups :: "nat \<Rightarrow> jstring option"
  m_post :: jstring

definition mk_match :: "jstring \<Rightarrow> jstring \<times> mstate \<Rightarrow> rmatch" where
  "mk_match s r =
     (case r of (start, y) \<Rightarrow>
        \<lparr> m_pre = take (length s - length start) s,
          m_whole = take (length start - length (rest y)) start,
          m_groups = caps y,
          m_post = rest y \<rparr>)"

text \<open>\<open>exec\<close> is the leftmost match; \<open>test\<close> says whether there is one.\<close>

definition exec :: "bool \<Rightarrow> regex \<Rightarrow> jstring \<Rightarrow> rmatch option" where
  "exec ic re s = map_option (mk_match s) (search_from ic re None s)"

definition test :: "bool \<Rightarrow> regex \<Rightarrow> jstring \<Rightarrow> bool" where
  "test ic re s = (case search_from ic re None s of None \<Rightarrow> False | Some _ \<Rightarrow> True)"

text \<open>
  All matches of a pattern with the global flag, from left to right, each search starting
  where the previous match ended (one code unit further after an empty match).
\<close>

function match_all_from :: "bool \<Rightarrow> regex \<Rightarrow> int option \<Rightarrow> jstring \<Rightarrow> rmatch list" where
  "match_all_from ic re p s =
     (case search_from ic re p s of
        None \<Rightarrow> []
      | Some (start, y) \<Rightarrow> mk_match s (start, y) #
          (if length (rest y) = length start
           then (case rest y of [] \<Rightarrow> []
                 | c # cs \<Rightarrow> if length cs < length s then match_all_from ic re (Some c) cs else [])
           else if length (rest y) < length s then match_all_from ic re (prev y) (rest y)
           else []))"
  by pat_completeness auto
termination
  by (relation "measure (\<lambda>(ic, re, p, s). length s)") auto

declare match_all_from.simps [simp del]

definition match_all :: "bool \<Rightarrow> regex \<Rightarrow> jstring \<Rightarrow> rmatch list" where
  "match_all ic re s = match_all_from ic re None s"

text \<open>\<open>replace\<close> with a pattern without the global flag, and with one that has it.\<close>

definition replace_first :: "bool \<Rightarrow> regex \<Rightarrow> jstring \<Rightarrow> jstring \<Rightarrow> jstring" where
  "replace_first ic re new s =
     (case exec ic re s of None \<Rightarrow> s | Some r \<Rightarrow> m_pre r @ new @ m_post r)"

function replace_all_from :: "bool \<Rightarrow> regex \<Rightarrow> jstring \<Rightarrow> int option \<Rightarrow> jstring \<Rightarrow> jstring" where
  "replace_all_from ic re new p s =
     (case search_from ic re p s of
        None \<Rightarrow> s
      | Some (start, y) \<Rightarrow> take (length s - length start) s @ new @
          (if length (rest y) = length start
           then (case rest y of [] \<Rightarrow> []
                 | c # cs \<Rightarrow> c # (if length cs < length s then replace_all_from ic re new (Some c) cs else cs))
           else if length (rest y) < length s then replace_all_from ic re new (prev y) (rest y)
           else rest y))"
  by pat_completeness auto
termination
  by (relation "measure (\<lambda>(ic, re, new, p, s). length s)") auto

declare replace_all_from.simps [simp del]

definition replace_all :: "bool \<Rightarrow> regex \<Rightarrow> jstring \<Rightarrow> jstring \<Rightarrow> jstring" where
  "replace_all ic re new s = replace_all_from ic re new None s"

text \<open>
  \<open>split\<close> with a pattern as separator: the pattern is tried at each position; a match
  that ends where the current piece began is passed over.
\<close>

function split_loop :: "bool \<Rightarrow> regex \<Rightarrow> int option \<Rightarrow> jstring \<Rightarrow> jstring \<Rightarrow> jstring list" where
  "split_loop ic re p piece s =
     (case s of
        [] \<Rightarrow> [rev piece]
      | c # cs \<Rightarrow>
          (case m ic re Some (MState p s (\<lambda>_. None)) of
             None \<Rightarrow> split_loop ic re (Some c) (c # piece) cs
           | Some y \<Rightarrow>
               if length (rest y) = length s
               then (if piece = [] then split_loop ic re (Some c) [c] cs
                     else rev piece # split_loop ic re (Some c) [c] cs)
               else if length (rest y) < length s
               then rev piece # split_loop ic re (prev y) [] (rest y)
               else [rev piece]))"
  by pat_completeness auto
termination
  by (relation "measure (\<lambda>(ic, re, p, piece, s). length s)") auto

declare split_loop.simps [simp del]

definition split_re :: "bool \<Rightarrow> regex \<Rightarrow> jstring \<Rightarrow> jstring list" where
  "split_re ic re s =
     (if s = [] then (case m ic re Some (MState None [] (\<lambda>_. None)) of None \<Rightarrow> [[]] | Some _ \<Rightarrow> [])
      else split_loop ic re None [] s)"

subsection \<open>Writing patterns\<close>

fun str :: "jstring \<Rightarrow> regex" where
  "str [] = Eps"
| "str [c] = Lit c"
| "str (c # cs) = Seq (Lit c) (str cs)"

fun alts :: "regex list \<Rightarrow> regex" where
  "alts [] = Eps"
| "alts [r] = r"
| "alts (r # rs) = Alt r (alts rs)"

fun seqs :: "regex list \<Rightarrow> regex" where
  "seqs [] = Eps"
| "seqs [r] = r"
| "seqs (r # rs) = Seq r (seqs rs)"

fun rep_exact :: "nat \<Rightarrow> regex \<Rightarrow> regex" where
  "rep_exact 0 r = Eps"
| "rep_exact (Suc 0) r = r"
| "rep_exact (Suc n) r = Seq r (rep_exact n r)"

definition rep :: "nat \<Rightarrow> nat option \<Rightarrow> regex \<Rightarrow> regex" where
  "rep lo hi r =
     (let tail = Star (case hi of None \<Rightarrow> None | Some h \<Rightarrow> Some (h - lo)) True r
      in if lo = 0 then tail else Seq (rep_exact lo r) tail)"

definition words :: "string list \<Rightarrow> regex" where
  "words ws = alts (map (\<lambda>w. str (lit w)) ws)"

definition opt :: "regex \<Rightarrow> regex" where
  "opt r = Star (Some 1) True r"

definition star :: "regex \<Rightarrow> regex" where
  "star r = Star None True r"

definition plus :: "regex \<Rightarrow> regex" where
  "plus r = Seq r (Star None True r)"

definition plus_lazy :: "regex \<Rightarrow> regex" where
  "plus_lazy r = Seq r (Star None False r)"

definition digit :: regex where
  "digit = Cls False [CDigit]"

definition space :: regex where
  "space = Cls False [CSpace]"

definition dash :: regex where
  "dash = Cls False [CChar 45, CChar 8211, CChar 8212]"

definition bullet :: regex where
  "bullet = Cls False [CChar 45, CChar 8226]"

definition year_range :: regex where
  "year_range = seqs [rep_exact 4 digit, star space, dash, star space, rep_exact 4 digit]"

section \<open>Language detection\<close>

datatype lang_code = Fr | En | Mixed

record LanguageProfile =
  code :: lang_code
  confidence :: rat
  frenchScore :: nat
  englishScore :: nat

definition frenchKeywords :: "jstring list" where
  "frenchKeywords =
     [lit ''exp'' @ [233] @ lit ''rience'', [233] @ lit ''ducation'', lit ''formation'',
      lit ''comp'' @ [233] @ lit ''tences'', lit ''competences'', lit ''langues'',
      lit ''certifications'', lit ''projets'', lit ''professionnel'',
      lit ''d'' @ [233] @ lit ''veloppeur'', lit ''ing'' @ [233] @ lit ''nieur'',
      lit ''universit'' @ [233], [233] @ lit ''cole'', lit ''dipl'' @ [244] @ lit ''me'',
      lit ''licence'', lit ''master'', lit ''stage'', lit ''mission'',
      lit ''r'' @ [233] @ lit ''alisation'', lit ''responsabilit'' @ [233] @ lit ''s'',
      lit ''poste'']"

definition englishKeywords :: "jstring list" where
  "englishKeywords =
     [lit ''experience'', lit ''education'', lit ''skills'', lit ''languages'',
      lit ''certifications'', lit ''projects'', lit ''professional'', lit ''developer'',
      lit ''engineer'', lit ''university'', lit ''school'', lit ''degree'', lit ''bachelor'',
      lit ''master'', lit ''internship'', lit ''position'', lit ''responsibilities'',
      lit ''achievements'', lit ''role'']"

text \<open>The pattern built for a keyword: the keyword between two word boundaries.\<close>

definition keyword_regex :: "jstring \<Rightarrow> regex" where
  "keyword_regex kw = seqs [WordB, str kw, WordB]"

definition keyword_score :: "jstring list \<Rightarrow> jstring \<Rightarrow> nat" where
  "keyword_score kws textLower =
     foldl (\<lambda>score kw. score + length (match_all True (keyword_regex kw) textLower)) 0 kws"

definition classify :: "nat \<Rightarrow> nat \<Rightarrow> lang_code" where
  "classify fs es =
     (if (of_nat fs :: rat) > of_nat es * (3 / 2) then Fr
      else if (of_nat es :: rat) > of_nat fs * (3 / 2) then En
      else Mixed)"

definition detectLanguage :: "jstring \<Rightarrow> LanguageProfile" where
  "detectLanguage text =
     (let textLower = toLowerCase text;
          fs = keyword_score frenchKeywords textLower;
          es = keyword_score englishKeywords textLower;
          total = fs + es
      in \<lparr> code = classify fs es,
           confidence = (if total > 0 then of_nat (max fs es) / of_nat total else 1 / 2),
           frenchScore = fs,
           englishScore = es \<rparr>)"

section \<open>Section segmentation\<close>

record cv_section =
  s_start :: nat
  s_end :: nat
  s_content :: jstring

text \<open>
  The section map is a map that keeps the order in which its keys were first set; setting
  a key that is there replaces its value in place.
\<close>

type_synonym section_map = "(jstring \<times> cv_section) list"

fun map_set :: "'k \<Rightarrow> 'v \<Rightarrow> ('k \<times> 'v) list \<Rightarrow> ('k \<times> 'v) list" where
  "map_set k v [] = [(k, v)]"
| "map_set k v ((k', v') # kvs) = (if k = k' then (k, v) # kvs else (k', v') # map_set k v kvs)"

definition map_get :: "('k \<times> 'v) list \<Rightarrow> 'k \<Rightarrow> 'v option" where
  "map_get kvs k = map_of kvs k"

definition sectionPatterns :: "lang_code \<Rightarrow> (jstring \<times> regex) list" where
  "sectionPatterns lc =
     [(lit ''experience'',
       if lc = Fr
       then alts (map str
        [lit ''EXP'' @ [201] @ lit ''RIENCE'', lit ''EXPERIENCE PROFESSIONNELLE'',
         lit ''PARCOURS PROFESSIONNEL''])
       else alts (map str
        [lit ''EXPERIENCE'', lit ''PROFESSIONAL EXPERIENCE'', lit ''WORK HISTORY'',
         lit ''EMPLOYMENT''])),
      (lit ''education'',
       if lc = Fr
       then alts (map str
        [lit ''FORMATION'', [201] @ lit ''DUCATION'', [201] @ lit ''TUDES'',
         lit ''PARCOURS ACAD'' @ [201] @ lit ''MIQUE''])
       else alts (map str
        [lit ''EDUCATION'', lit ''ACADEMIC BACKGROUND'', lit ''QUALIFICATIONS''])),
      (lit ''skills'',
       if lc = Fr
       then alts (map str
        [lit ''COMP'' @ [201] @ lit ''TENCES'', lit ''COMPETENCES'', lit ''SAVOIR-FAIRE''])
       else alts (map str
        [lit ''SKILLS'', lit ''COMPETENCIES'', lit ''TECHNICAL SKILLS'', lit ''EXPERTISE''])),
      (lit ''languages'',
       if lc = Fr
       then alts (map str
        [lit ''LANGUES''])
       else alts (map str
        [lit ''LANGUAGES''])),
      (lit ''certifications'',
       if lc = Fr
       then alts (map str
        [lit ''CERTIFICATIONS'', lit ''CERTIFICATS''])
       else alts (map str
        [lit ''CERTIFICATIONS'', lit ''CERTIFICATES'', lit ''LICENSES''])),
      (lit ''projects'',
       if lc = Fr
       then alts (map str
        [lit ''PROJETS'', lit ''R'' @ [201] @ lit ''ALISATIONS''])
       else alts (map str
        [lit ''PROJECTS'', lit ''PORTFOLIO'', lit ''KEY PROJECTS''])),
      (lit ''summary'',
       if lc = Fr
       then alts (map str
        [lit ''R'' @ [201] @ lit ''SUM'' @ [201], lit ''PROFIL'', [192] @ lit '' PROPOS''])
       else alts (map str
        [lit ''SUMMARY'', lit ''PROFILE'', lit ''ABOUT'', lit ''OBJECTIVE'']))]"

definition slice :: "nat \<Rightarrow> nat \<Rightarrow> 'a list \<Rightarrow> 'a list" where
  "slice a b xs = take (b - a) (drop a xs)"

definition sectionStarts :: "jstring list \<Rightarrow> (jstring \<times> regex) list \<Rightarrow> (jstring \<times> nat) list" where
  "sectionStarts lines pats =
     concat (map (\<lambda>(name, pattern).
                    map (\<lambda>(idx, line). (name, idx))
                      (filter (\<lambda>(idx, line). test True pattern (trim line)) (enumerate 0 lines)))
                 pats)"

fun section_spans :: "jstring list \<Rightarrow> (jstring \<times> nat) list \<Rightarrow> (jstring \<times> cv_section) list" where
  "section_spans lines [] = []"
| "section_spans lines [(name, i)] =
     [(name, \<lparr> s_start = i, s_end = length lines,
               s_content = join [10] (slice i (length lines) lines) \<rparr>)]"
| "section_spans lines ((name, i) # (name', i') # others) =
     (name, \<lparr> s_start = i, s_end = i', s_content = join [10] (slice i i' lines) \<rparr>)
       # section_spans lines ((name', i') # others)"

definition identifySections :: "jstring \<Rightarrow> LanguageProfile \<Rightarrow> section_map" where
  "identifySections text language =
     (let lines = split_on 10 text;
          starts = sort_key snd (sectionStarts lines (sectionPatterns (code language)))
      in foldl (\<lambda>sections (name, sec). map_set name sec sections) [] (section_spans lines starts))"

record ExtractionContext =
  language :: LanguageProfile
  sections :: section_map
  lines :: "jstring list"
  documentType :: jstring

definition buildExtractionContext :: "jstring \<Rightarrow> jstring \<Rightarrow> ExtractionContext" where
  "buildExtractionContext text docType =
     (let language = detectLanguage text
      in \<lparr> language = language,
           sections = identifySections text language,
           lines = filter (\<lambda>l. length l > 0) (map trim (split_on 10 text)),
           documentType = docType \<rparr>)"

section \<open>Errors\<close>

text \<open>
  The engine has no exception of its own. What can throw is a method call on a value
  that is not there: a capture that took no part in the match, or an array element out of
  range. Both are written into the model as \<open>TypeError\<close>.
\<close>

datatype js_error = TypeError

definition and_then :: "js_error + 'a \<Rightarrow> ('a \<Rightarrow> js_error + 'b) \<Rightarrow> js_error + 'b" where
  "and_then x f = (case x of Inl e \<Rightarrow> Inl e | Inr v \<Rightarrow> f v)"

definition capture :: "rmatch \<Rightarrow> nat \<Rightarrow> js_error + jstring" where
  "capture r i = (case m_groups r i of None \<Rightarrow> Inl TypeError | Some g \<Rightarrow> Inr g)"

definition element :: "'a list \<Rightarrow> nat \<Rightarrow> js_error + 'a" where
  "element xs i = (if i < length xs then Inr (xs ! i) else Inl TypeError)"

section \<open>Personal information\<close>

record personal_info =
  full_name :: jstring
  position :: jstring
  email :: jstring
  phone :: jstring
  location :: jstring
  linkedin :: jstring
  age :: "unit option"
  gender :: "unit option"

definition upper_letter :: regex where
  "upper_letter = Cls False [CRange 65 90, CChar 192, CChar 194, CChar 196, CChar 198, CChar 199, CChar 201, CChar 200, CChar 202, CChar 203, CChar 207, CChar 206, CChar 212, CChar 214, CChar 338, CChar 217, CChar 219, CChar 220]"

definition lower_letter :: regex where
  "lower_letter = Cls False [CRange 97 122, CChar 224, CChar 226, CChar 228, CChar 230, CChar 231, CChar 233, CChar 232, CChar 234, CChar 235, CChar 239, CChar 238, CChar 244, CChar 246, CChar 339, CChar 249, CChar 251, CChar 252]"

subsection \<open>Name\<close>

definition excludePatterns :: "(bool \<times> regex) list" where
  "excludePatterns =
     [(True, Seq Bol (alts (map str
           [lit ''CURRICULUM'', lit ''VITAE'', lit ''CV'', lit ''RESUME'',
            lit ''R'' @ [201] @ lit ''SUM'' @ [201]]))),
      (True, seqs [WordB,
         alts (map str
           [lit ''ENGINEER'', lit ''MANAGER'', lit ''DEVELOPER'',
            lit ''D'' @ [201] @ lit ''VELOPPEUR'', lit ''DIRECTOR'', lit ''DESIGNER'',
            lit ''ARCHITECT'', lit ''ING'' @ [201] @ lit ''NIEUR'', lit ''ANALYST'',
            lit ''CONSULTANT'', lit ''SPECIALIST'', lit ''COORDINATOR'', lit ''TECHNICIAN'',
            lit ''TECHNICIEN'', lit ''OFFICER'', lit ''EXECUTIVE'', lit ''SUPERVISOR'',
            lit ''ASSISTANT'', lit ''INTERN'', lit ''LEAD'', lit ''CHIEF'', lit ''HEAD'',
            lit ''FULL STACK'', lit ''FRONTEND'', lit ''BACKEND'',
            lit ''G'' @ [201] @ lit ''NIE'', lit ''INFORMATIQUE'', lit ''FABRICATION'',
            lit ''MECANIQUE'', lit ''M'' @ [201] @ lit ''CANIQUE'']),
         WordB]),
      (True, alts [Lit 64, str (lit ''http''), str (lit ''www.''), str (lit ''github.com''), str (lit ''linkedin'')]),
      (False, Seq Bol (plus digit)),
      (True, alts (map str
           [lit ''EXPERIENCE'', lit ''EDUCATION'', lit ''SKILLS'', lit ''FORMATION'',
            lit ''COMP'' @ [201] @ lit ''TENCES'', lit ''COMPETENCES'', lit ''PROJET'',
            lit ''PROJECT'', lit ''CERTIFICATION''])),
      (False, year_range),
      (True, seqs [Bol, star space, str (lit ''fes''), star space, Eol]),
      (False, seqs [Bol, rep 20 None (Cls False [CRange 65 90, CSpace]), Eol]),
      (True, alts (map str
           [lit ''Technologies'', lit ''Utilisees'', lit ''Spring'', lit ''Boot'',
            lit ''Security'', lit ''MySQL'', lit ''Framework'', lit ''JPA'', lit ''Repository'']))]"

definition excluded :: "jstring \<Rightarrow> bool" where
  "excluded line = list_ex (\<lambda>(ic, p). test ic p line) excludePatterns"

fun first_some :: "('a \<Rightarrow> 'b option) \<Rightarrow> 'a list \<Rightarrow> 'b option" where
  "first_some f [] = None"
| "first_some f (x # xs) = (case f x of Some y \<Rightarrow> Some y | None \<Rightarrow> first_some f xs)"

fun find_index :: "('a \<Rightarrow> bool) \<Rightarrow> 'a list \<Rightarrow> nat option" where
  "find_index P [] = None"
| "find_index P (x # xs) = (if P x then Some 0 else map_option Suc (find_index P xs))"

definition truthy :: "jstring option \<Rightarrow> bool" where
  "truthy v = (case v of None \<Rightarrow> False | Some s \<Rightarrow> s \<noteq> [])"

definition word_count :: "jstring \<Rightarrow> nat" where
  "word_count line = length (split_re False (plus space) line)"

definition title_case :: "jstring \<Rightarrow> jstring" where
  "title_case line =
     join [32] (map (\<lambda>word. case word of [] \<Rightarrow> [] | c # cs \<Rightarrow> c # toLowerCase cs)
                    (split_re False (plus space) line))"

definition name_phase1 :: "jstring \<Rightarrow> jstring option" where
  "name_phase1 l =
     (let line = trim l in
      if line = [] \<or> length line < 5 \<or> length line > 100 then None
      else if excluded line then None
      else if test False (seqs [Bol, rep 2 None (Grp 1 (Seq upper_letter space)), plus upper_letter, Eol]) line
      then Some (trim (replace_all False (plus space) [32] line))
      else if test False (seqs [Bol, rep 1 (Some 3) (Grp 1 (Seq (plus upper_letter) space)), plus upper_letter, Eol]) line
              \<and> line = toUpperCase line
      then (let wordCount = word_count line in
            if wordCount \<ge> 2 \<and> wordCount \<le> 4 \<and> length line \<ge> 8 \<and> length line \<le> 50
            then Some (title_case line) else None)
      else None)"

definition name_phase2 :: "jstring \<Rightarrow> jstring option" where
  "name_phase2 l =
     (let line = trim l in
      if line = [] \<or> length line < 5 \<or> length line > 80 then None
      else if excluded line then None
      else if line = toUpperCase line \<or> line = toLowerCase line then None
      else if str_includes line [124] \<or> str_includes line [58] \<or> str_includes line [47] then None
      else if test False
                (seqs [Bol,
                       Grp 1 (seqs [upper_letter, plus lower_letter,
                                    rep 1 (Some 3) (seqs [Cls False [CSpace, CChar 45], upper_letter, plus lower_letter])]),
                       Eol]) line
              \<and> \<not> test False digit line
      then (let wordCount = word_count line in
            if wordCount \<ge> 2 \<and> wordCount \<le> 4 then Some line else None)
      else None)"

definition name_phase3 :: "jstring \<Rightarrow> jstring option" where
  "name_phase3 line =
     (let trimmed = trim line in
      if length trimmed < 5 \<or> length trimmed > 100 then None
      else if excluded trimmed then None
      else if test False (Seq Bol upper_letter) trimmed \<and> test False (Cls False [CRange 97 122]) trimmed
              \<and> test False (Cls False [CSpace, CChar 45]) trimmed
      then (let wordCount = word_count trimmed in
            if wordCount \<ge> 2 \<and> wordCount \<le> 5 \<and> \<not> test False (rep_exact 4 digit) trimmed
            then (if \<not> test True (seqs [WordB,
                                         words [''the'', ''a'', ''an'', ''is'', ''are'', ''was'', ''were'', ''le'', ''la'',
                                                ''les'', ''un'', ''une'', ''des'', ''et'', ''ou'', ''dans'', ''pour'',
                                                ''avec'', ''sur''],
                                         WordB]) trimmed
                  then Some trimmed else None)
            else None)
      else None)"

definition extractNameMultiPhase :: "ExtractionContext \<Rightarrow> jstring option \<Rightarrow> jstring option \<Rightarrow> jstring" where
  "extractNameMultiPhase context emailMatch0 phoneMatch0 =
     (let searchEndLine =
            (if truthy emailMatch0 \<or> truthy phoneMatch0
             then (case find_index
                          (\<lambda>l. (case emailMatch0 of None \<Rightarrow> False
                                  | Some e \<Rightarrow> e \<noteq> [] \<and> str_includes (toLowerCase l) (toLowerCase e))
                               \<or> (case phoneMatch0 of None \<Rightarrow> False
                                  | Some p \<Rightarrow> p \<noteq> [] \<and> str_includes l p))
                          (lines context) of
                     None \<Rightarrow> 40
                   | Some contactLine \<Rightarrow> if contactLine > 10 then contactLine else 40)
             else 40)
      in case first_some name_phase1 (take 15 (lines context)) of
           Some name \<Rightarrow> name
         | None \<Rightarrow>
             (case first_some name_phase2 (take searchEndLine (lines context)) of
                Some name \<Rightarrow> name
              | None \<Rightarrow>
                  (case first_some name_phase3
                          (filter (\<lambda>line. length (trim line) > 0
                                     \<and> \<not> test True (Seq Bol (words [''EXPERIENCE'', ''EDUCATION'', ''PROJET'', ''PROJECT'',
                                                                      ''COMPETENCES'', ''SKILLS'', ''CERTIFICATION''])) (trim line))
                                  (take 30 (lines context))) of
                     Some name \<Rightarrow> name
                   | None \<Rightarrow> lit ''Name Not Found'')))"

subsection \<open>Position\<close>

definition titleKeywords :: "lang_code \<Rightarrow> jstring list" where
  "titleKeywords lc =
     (if lc = Fr
      then [lit ''D'' @ [233] @ lit ''veloppeur'', lit ''Ing'' @ [233] @ lit ''nieur'',
            lit ''Architecte'', lit ''Chef'', lit ''Directeur'', lit ''Consultant'',
            lit ''Analyste'', lit ''Technicien'', lit ''Responsable'', lit ''Manager'']
      else [lit ''Developer'', lit ''Engineer'', lit ''Architect'', lit ''Lead'',
            lit ''Director'', lit ''Manager'', lit ''Consultant'', lit ''Analyst'',
            lit ''Specialist'', lit ''Designer''])"

definition position_line :: "lang_code \<Rightarrow> jstring \<Rightarrow> jstring option" where
  "position_line lc l =
     (let line = trim l in
      if (str_includes line [124] \<or> list_ex (\<lambda>kw. str_includes line kw) (titleKeywords lc))
         \<and> length line > 10 \<and> length line < 200 \<and> \<not> str_includes line [64]
      then Some line else None)"

definition extractPosition :: "ExtractionContext \<Rightarrow> jstring" where
  "extractPosition context =
     (case first_some (position_line (code (language context))) (take 15 (lines context)) of
        Some line \<Rightarrow> line
      | None \<Rightarrow> [])"

subsection \<open>Location\<close>

definition techTerms :: "jstring list" where
  "techTerms =
     [lit ''Spring'', lit ''Boot'', lit ''React'', lit ''Angular'', lit ''Node'',
      lit ''Express'', lit ''Django'', lit ''Flask'', lit ''Laravel'', lit ''Symfony'',
      lit ''MySQL'', lit ''MongoDB'', lit ''PostgreSQL'', lit ''Redis'', lit ''Docker'',
      lit ''Kubernetes'', lit ''AWS'', lit ''Azure'', lit ''GCP'', lit ''JavaScript'',
      lit ''TypeScript'', lit ''Python'', lit ''Java'', lit ''PHP'', lit ''Ruby'',
      lit ''Security'', lit ''Framework'', lit ''Library'']"

definition validCities :: "jstring list" where
  "validCities =
     [lit ''F'' @ [232] @ lit ''s'', lit ''Fes'', lit ''Casablanca'', lit ''Rabat'',
      lit ''Marrakech'', lit ''Tanger'', lit ''Agadir'', lit ''Mohammedia'', lit ''Oujda'',
      lit ''Kenitra'', lit ''Tetouan'', lit ''Paris'', lit ''London'', lit ''New York'',
      lit ''Dubai'', lit ''Berlin'', lit ''Madrid'', lit ''Rome'', lit ''Amsterdam'']"

definition capitalized :: regex where
  "capitalized = Seq (Cls False [CRange 65 90]) (plus (Cls False [CRange 97 122, CRange 224 255]))"

definition cityCountryPattern :: regex where
  "cityCountryPattern =
     seqs [WordB,
           Grp 1 (Seq capitalized (opt (Seq (plus space) capitalized))),
           Lit 44, star space,
           Grp 2 (Seq capitalized (opt (Seq (plus space) capitalized))),
           WordB]"

definition locationLabelPattern :: regex where
  "locationLabelPattern =
     seqs [words [''Location'', ''Adresse'', ''Address'', ''Ville'', ''City''],
           plus (Cls False [CSpace, CChar 58]),
           Grp 1 (plus (Cls False [CRange 65 90, CRange 97 122, CRange 192 255, CSpace, CChar 44]))]"

definition locationInSectionPattern :: regex where
  "locationInSectionPattern = seqs [WordB, Lit 108, plus space, Grp 1 capitalized, WordB]"

fun first_some_err :: "('a \<Rightarrow> js_error + 'b option) \<Rightarrow> 'a list \<Rightarrow> js_error + 'b option" where
  "first_some_err f [] = Inr None"
| "first_some_err f (x # xs) =
     (case f x of
        Inl e \<Rightarrow> Inl e
      | Inr (Some y) \<Rightarrow> Inr (Some y)
      | Inr None \<Rightarrow> first_some_err f xs)"

definition location_line :: "jstring \<Rightarrow> js_error + jstring option" where
  "location_line line =
     (let trimmed = trim line in
      case find (\<lambda>city. toLowerCase trimmed = toLowerCase city) validCities of
        Some matchedCity \<Rightarrow> Inr (Some matchedCity)
      | None \<Rightarrow>
          (case exec True locationLabelPattern trimmed of
             None \<Rightarrow> Inr None
           | Some locationLabelMatch \<Rightarrow>
               and_then (capture locationLabelMatch 1) (\<lambda>g.
                 case split_on 10 g of
                   [] \<Rightarrow> Inl TypeError
                 | first # _ \<Rightarrow>
                     (let loc = trim first in
                      if \<not> list_ex (\<lambda>tech. str_includes loc tech) techTerms \<and> length loc < 50
                      then Inr (Some loc) else Inr None))))"

fun location_candidates :: "rmatch list \<Rightarrow> js_error + jstring list" where
  "location_candidates [] = Inr []"
| "location_candidates (r # rs) =
     (case capture r 1 of
        Inl e \<Rightarrow> Inl e
      | Inr candidate \<Rightarrow>
          (case location_candidates rs of
             Inl e \<Rightarrow> Inl e
           | Inr cands \<Rightarrow>
               Inr (if \<not> List.member techTerms candidate \<and> length candidate \<ge> 3
                    then candidate # cands else cands)))"

fun count_add :: "jstring \<Rightarrow> (jstring \<times> nat) list \<Rightarrow> (jstring \<times> nat) list" where
  "count_add loc [] = [(loc, 1)]"
| "count_add loc ((k, n) # kvs) = (if k = loc then (k, n + 1) # kvs else (k, n) # count_add loc kvs)"

definition most_common :: "jstring list \<Rightarrow> jstring" where
  "most_common candidates =
     (case sort_key (\<lambda>(loc, n). - int n) (foldl (\<lambda>acc loc. count_add loc acc) [] candidates) of
        [] \<Rightarrow> []
      | (loc, n) # _ \<Rightarrow> loc)"

definition location_fallback :: "ExtractionContext \<Rightarrow> js_error + jstring" where
  "location_fallback context =
     (case first_some_err location_line (take 20 (lines context)) of
        Inl e \<Rightarrow> Inl e
      | Inr (Some loc) \<Rightarrow> Inr loc
      | Inr None \<Rightarrow>
          and_then (location_candidates (match_all False locationInSectionPattern (join [10] (lines context))))
            (\<lambda>candidates. Inr (if length candidates > 0 then most_common candidates else [])))"

definition extractLocation :: "ExtractionContext \<Rightarrow> js_error + jstring" where
  "extractLocation context =
     (case exec False cityCountryPattern (join [10] (lines context)) of
        None \<Rightarrow> location_fallback context
      | Some cityCountryMatch \<Rightarrow>
          and_then (capture cityCountryMatch 1) (\<lambda>g1.
          and_then (capture cityCountryMatch 2) (\<lambda>g2.
            let city = trim g1; country = trim g2 in
            if \<not> list_ex (\<lambda>tech. str_includes city tech \<or> str_includes country tech) techTerms
            then Inr (city @ lit '', '' @ country)
            else location_fallback context)))"

subsection \<open>Contact details\<close>

definition emailPattern :: regex where
  "emailPattern =
     Seq (NegBehind [CDigit])
         (Grp 1 (seqs [Cls False [CRange 97 122, CRange 65 90], star (Cls False [CWord, CChar 46, CChar 43, CChar 45]), Lit 64,
                       Cls False [CRange 97 122, CRange 65 90, CRange 48 57], star (Cls False [CWord, CChar 46, CChar 45]), Lit 46,
                       rep 2 None (Cls False [CRange 97 122, CRange 65 90])]))"

definition phonePattern :: regex where
  "phonePattern =
     seqs [opt (alts (map str
                  [lit ''Tel'', lit ''Phone'', lit ''Mobile'',
                   lit ''T'' @ [233] @ lit ''l'' @ [233] @ lit ''phone'',
                   lit ''T'' @ [233] @ lit ''l'', lit ''GSM'', lit ''Contact''])),
           star (Cls False [CSpace, CChar 58]),
           Grp 1 (Seq (opt (Lit 43)) (rep 10 (Some 15) digit)),
           NegAhead (seqs [star digit, Cls False [CChar 45], rep_exact 4 digit])]"

definition linkedinPattern :: regex where
  "linkedinPattern =
     Seq (alts [str (lit ''linkedin.com/in/''), str (lit ''lnkd.in/''),
                seqs [str (lit ''linkedin''), opt (Lit 58), star space]])
         (Grp 1 (plus (Cls False [CRange 97 122, CRange 65 90, CRange 48 57, CChar 45])))"

definition clean_phone :: "jstring \<Rightarrow> jstring" where
  "clean_phone g =
     (let cleanPhone = trim (replace_all False (Cls False [CSpace, CChar 46, CChar 45, CChar 40, CChar 41]) [] g) in
      if length cleanPhone < 10 \<or> length cleanPhone > 15 then [] else cleanPhone)"

definition extractPersonalInfo :: "ExtractionContext \<Rightarrow> js_error + personal_info" where
  "extractPersonalInfo context =
     (let fullText = join [10] (lines context);
          emailMatch = exec False emailPattern fullText;
          phoneMatch = exec True phonePattern fullText
      in and_then (case phoneMatch of None \<Rightarrow> Inr []
                   | Some r \<Rightarrow> and_then (capture r 1) (\<lambda>g. Inr (clean_phone g))) (\<lambda>cleanPhone.
         let fullName = extractNameMultiPhase context (map_option m_whole emailMatch) (map_option m_whole phoneMatch);
             pos = extractPosition context
         in and_then (extractLocation context) (\<lambda>loc.
            let linkedinMatch = exec True linkedinPattern fullText
            in and_then (case emailMatch of None \<Rightarrow> Inr []
                         | Some r \<Rightarrow> and_then (capture r 1) (\<lambda>g. Inr (trim g))) (\<lambda>mail.
               Inr \<lparr> full_name = fullName,
                     position = pos,
                     email = mail,
                     phone = cleanPhone,
                     location = loc,
                     linkedin = (case linkedinMatch of
                                   None \<Rightarrow> []
                                 | Some r \<Rightarrow> lit ''https://linkedin.com/in/''
                                     @ (case m_groups r 1 of None \<Rightarrow> lit ''undefined'' | Some g \<Rightarrow> g)),
                     age = None,
                     gender = None \<rparr>))))"

section \<open>Experience\<close>

record experience_entry =
  exp_position :: jstring
  exp_company :: jstring
  exp_location :: jstring
  startDate :: jstring
  endDate :: jstring
  exp_description :: jstring
  duration :: jstring

text \<open>The end of a date range is a number, or the text that stood for the present.\<close>

datatype end_year = EndNum jsnum | EndStr jstring

definition months :: regex where
  "months = alts (map str
     [lit ''jan'', lit ''feb'', lit ''mar'', lit ''apr'', lit ''may'', lit ''jun'', lit ''jul'',
 lit ''aug'', lit ''sep'', lit ''oct'', lit ''nov'', lit ''dec'', lit ''janv'',
 lit ''f'' @ [233] @ lit ''vr'', lit ''mars'', lit ''avr'', lit ''mai'', lit ''juin'',
 lit ''juil'', lit ''ao'' @ [251] @ lit ''t'', lit ''sept'', lit ''oct'', lit ''nov'',
 lit ''d'' @ [233] @ lit ''c''])"

definition datePatterns :: "regex list" where
  "datePatterns =
     [seqs [WordB, Grp 1 (rep_exact 2 digit), Lit 47, Grp 2 (rep_exact 4 digit),
            star space, dash, star space,
            Alt (seqs [Grp 3 (rep_exact 2 digit), Lit 47, Grp 4 (rep_exact 4 digit)])
                (alts (map str [lit ''present'', lit ''current'', lit ''aujourd'' @ [39] @ lit ''hui'', lit ''actuel'', lit ''now''])),
            WordB],
      seqs [WordB, Grp 1 (rep_exact 4 digit),
            star space, dash, star space,
            Alt (Grp 2 (rep_exact 4 digit))
                (alts (map str [lit ''present'', lit ''current'', lit ''aujourd'' @ [39] @ lit ''hui'', lit ''actuel'', lit ''now''])),
            WordB],
      seqs [WordB, Grp 1 months, star (Cls False [CRange 97 122]), opt (Lit 46), plus space,
            Grp 2 (rep_exact 4 digit),
            star space, dash, star space,
            opt (seqs [Grp 3 months, star (Cls False [CRange 97 122]), opt (Lit 46), plus space]),
            Grp 4 (Alt (rep_exact 4 digit)
                       (alts (map str [lit ''present'', lit ''current'', lit ''aujourd'' @ [39] @ lit ''hui'', lit ''actuel'']))),
            WordB]]"

definition four_digits :: regex where
  "four_digits = seqs [Bol, rep_exact 4 digit, Eol]"

definition two_digits :: regex where
  "two_digits = seqs [Bol, rep_exact 2 digit, Eol]"

definition end_of_range :: "rmatch \<Rightarrow> end_year" where
  "end_of_range dateMatch =
     (case m_groups dateMatch 4 of
        None \<Rightarrow> EndStr (lit ''Present'')
      | Some g4 \<Rightarrow> if g4 = [] then EndStr (lit ''Present'')
                   else if test False four_digits g4 then EndNum (parseInt g4)
                   else EndStr g4)"

definition parse_range :: "rmatch \<Rightarrow> jstring \<Rightarrow> jstring \<Rightarrow> jsnum \<times> end_year" where
  "parse_range dateMatch g1 g2 =
     (if test False four_digits g1
      then (parseInt g1,
            if test False (alts (map str [lit ''present'', lit ''current'', lit ''aujourd'' @ [39] @ lit ''hui'', lit ''actuel''])) (toLowerCase g2)
            then EndStr (lit ''Present'')
            else EndNum (parseInt g2))
      else if test False two_digits g1
      then (parseInt g2, end_of_range dateMatch)
      else (parseInt g2, end_of_range dateMatch))"

text \<open>
  The lines before the date line: the state is the position, the company and the
  location found so far; the result says also whether the loop was left by \<open>break\<close>.
\<close>

definition or_empty :: "jstring list \<Rightarrow> nat \<Rightarrow> jstring" where
  "or_empty parts i = (if i < length parts then parts ! i else [])"

definition companyPattern :: regex where
  "companyPattern =
     seqs [WordB, Lit 108, plus space,
           Grp 1 (Seq (Cls False [CRange 65 90]) (plus_lazy (Cls False [CRange 65 90, CRange 97 122, CRange 192 255, CSpace]))),
           star space, Eol]"

definition look_back_line ::
  "jstring \<Rightarrow> jstring \<times> jstring \<times> jstring \<Rightarrow> js_error + (bool \<times> jstring \<times> jstring \<times> jstring)" where
  "look_back_line prevLine st =
     (case st of (pos, cmp, loc) \<Rightarrow>
        if test False (Seq Bol bullet) prevLine
           \<or> test True (alts (map str [lit ''Technologies'', lit ''Utilisees'', lit ''Conception'', lit ''D'' @ [233] @ lit ''veloppement''])) prevLine
        then Inr (False, pos, cmp, loc)
        else if str_includes prevLine [124]
        then (let parts = map trim (split_on 124 prevLine) in
              Inr (True,
                   if pos = [] then or_empty parts 0 else pos,
                   if cmp = [] then or_empty parts 1 else cmp,
                   if loc = [] then or_empty parts 2 else loc))
        else
          and_then (case exec False companyPattern prevLine of
                      None \<Rightarrow> Inr cmp
                    | Some companyMatch \<Rightarrow>
                        if cmp = [] then and_then (capture companyMatch 1) (\<lambda>g. Inr (trim g))
                        else Inr cmp) (\<lambda>cmp'.
            Inr (False,
                 if pos = [] \<and> length prevLine > 5 \<and> length prevLine < 150
                    \<and> \<not> test False (rep_exact 4 digit) prevLine
                    \<and> test False (Cls False [CRange 65 90]) prevLine
                 then prevLine else pos,
                 cmp', loc)))"

function look_back ::
  "jstring list \<Rightarrow> nat \<Rightarrow> nat \<Rightarrow> jstring \<times> jstring \<times> jstring \<Rightarrow> js_error + (jstring \<times> jstring \<times> jstring)" where
  "look_back ls j i st =
     (if j < i
      then (case element ls j of
              Inl e \<Rightarrow> Inl e
            | Inr prevLine \<Rightarrow>
                (case look_back_line prevLine st of
                   Inl e \<Rightarrow> Inl e
                 | Inr (stop, st') \<Rightarrow> if stop then Inr st' else look_back ls (j + 1) i st'))
      else Inr st)"
  by pat_completeness auto
termination
  by (relation "measure (\<lambda>(ls, j, i, st). i - j)") auto

declare look_back.simps [simp del]

text \<open>The lines after the date line: the description, with the number of lines in it.\<close>

fun collect_description :: "jstring list \<Rightarrow> jstring \<Rightarrow> nat \<Rightarrow> jstring" where
  "collect_description [] description descLineCount = description"
| "collect_description (descLine # more_lines) description descLineCount =
     (if test False year_range descLine
         \<or> test True (Seq Bol (words [''EDUCATION'', ''PROJET'', ''CERTIFICATION'', ''COMPETENCES''])) descLine
      then description
      else if test False (Seq Bol bullet) descLine
              \<or> test True (alts (map str [lit ''Technologies'', lit ''Conception'', lit ''D'' @ [233] @ lit ''veloppement'', lit ''Cr'' @ [233] @ lit ''ation'', lit ''Int'' @ [233] @ lit ''gration'', lit ''Impl'' @ [233] @ lit ''mentation''])) descLine
      then (let description' = description @ trim (replace_first False (seqs [Bol, bullet, star space]) [] descLine) @ [32]
            in if descLineCount + 1 \<ge> 5 then description'
               else collect_description more_lines description' (descLineCount + 1))
      else if descLineCount \<ge> 5 then description
      else collect_description more_lines description descLineCount)"

definition make_entry ::
  "int \<Rightarrow> jstring list \<Rightarrow> nat \<Rightarrow> jsnum \<Rightarrow> end_year \<Rightarrow> js_error + experience_entry" where
  "make_entry currentYear ls i startYear endYear =
     and_then (look_back ls (i - 5) i ([], [], [])) (\<lambda>(pos, cmp, loc).
       let description = collect_description (slice (i + 1) (min (i + 15) (length ls)) ls) [] 0 in
       Inr \<lparr> exp_position = (if pos = [] then lit ''Position Not Specified'' else pos),
             exp_company = cmp,
             exp_location = loc,
             startDate = toString startYear,
             endDate = (case endYear of EndNum e \<Rightarrow> toString e | EndStr s \<Rightarrow> s),
             exp_description = trim description,
             duration = (case endYear of
                           EndNum e \<Rightarrow> toString (num_sub e startYear) @ lit '' years''
                         | EndStr s \<Rightarrow> toString (num_sub (Num currentYear) startYear) @ lit '' years'') \<rparr>)"

text \<open>
  The patterns are tried in turn on the line. A match whose first two captures are not
  both there advances the line index and goes on with the next pattern, on the same line.
\<close>

fun try_patterns ::
  "int \<Rightarrow> jstring list \<Rightarrow> jstring \<Rightarrow> regex list \<Rightarrow> nat \<Rightarrow> js_error + (nat \<times> experience_entry list)" where
  "try_patterns currentYear ls line [] i = Inr (i, [])"
| "try_patterns currentYear ls line (pattern # patterns) i =
     (case exec True pattern line of
        None \<Rightarrow> try_patterns currentYear ls line patterns i
      | Some dateMatch \<Rightarrow>
          (case (m_groups dateMatch 1, m_groups dateMatch 2) of
             (Some g1, Some g2) \<Rightarrow>
               if g1 \<noteq> [] \<and> g2 \<noteq> []
               then (case parse_range dateMatch g1 g2 of (startYear, endYear) \<Rightarrow>
                       and_then (make_entry currentYear ls i startYear endYear) (\<lambda>e. Inr (i, [e])))
               else try_patterns currentYear ls line patterns (i + 1)
           | _ \<Rightarrow> try_patterns currentYear ls line patterns (i + 1)))"

lemma try_patterns_index:
  "try_patterns currentYear ls line patterns i = Inr (i', found) \<Longrightarrow> i \<le> i'"
proof (induction patterns arbitrary: i)
  case Nil
  then show ?case by simp
next
  case (Cons pattern patterns)
  show ?case
  proof (cases "exec True pattern line")
    case None
    with Cons show ?thesis by simp
  next
    case (Some dateMatch)
    show ?thesis
    proof (cases "\<exists>g1 g2. m_groups dateMatch 1 = Some g1 \<and> m_groups dateMatch 2 = Some g2 \<and> g1 \<noteq> [] \<and> g2 \<noteq> []")
      case True
      then obtain g1 g2 where g: "m_groups dateMatch 1 = Some g1" "m_groups dateMatch 2 = Some g2"
        "g1 \<noteq> []" "g2 \<noteq> []" by blast
      from Cons.prems Some g show ?thesis
        by (auto simp: and_then_def split: prod.splits sum.splits)
    next
      case False
      with Cons.prems Some have "try_patterns currentYear ls line patterns (i + 1) = Inr (i', found)"
        by (auto split: option.splits if_splits)
      from Cons.IH [OF this] show ?thesis by simp
    qed
  qed
qed

function exp_loop ::
  "int \<Rightarrow> jstring list \<Rightarrow> nat \<Rightarrow> experience_entry list \<Rightarrow> js_error + experience_entry list" where
  "exp_loop currentYear ls i experiences =
     (if i < length ls
      then (if test True (Seq Bol (alts (map str [lit ''EXPERIENCE'', lit ''EXP'' @ [201] @ lit ''RIENCE'', lit ''PROFESSIONAL'', lit ''PARCOURS'']))) (ls ! i)
            then exp_loop currentYear ls (i + 1) experiences
            else (case try_patterns currentYear ls (ls ! i) datePatterns i of
                    Inl e \<Rightarrow> Inl e
                  | Inr (i', found) \<Rightarrow> exp_loop currentYear ls (i' + 1) (experiences @ found)))
      else Inr experiences)"
  by pat_completeness auto
termination
proof (relation "measure (\<lambda>(currentYear, ls, i, experiences). length ls - i)", goal_cases)
  case 1
  show ?case by simp
next
  case (2 currentYear ls i experiences)
  then show ?case by simp
next
  case (3 currentYear ls i experiences x2 i' found)
  then have "i \<le> i'" using try_patterns_index by metis
  with 3 show ?case by simp
qed

declare exp_loop.simps [simp del]

definition extractExperienceAdvanced :: "int \<Rightarrow> ExtractionContext \<Rightarrow> js_error + experience_entry list" where
  "extractExperienceAdvanced currentYear context =
     (case map_get (sections context) (lit ''experience'') of
        None \<Rightarrow> Inr []
      | Some sec \<Rightarrow>
          exp_loop currentYear
            (filter (\<lambda>l. length l > 0) (map trim (split_on 10 (s_content sec)))) 0 [])"

section \<open>Education\<close>

record education_entry =
  degree :: jstring
  institution :: jstring
  field_of_study :: "jstring option"
  start_date :: "jstring option"
  end_date :: "jstring option"

definition degreeKeywords :: "lang_code \<Rightarrow> jstring list" where
  "degreeKeywords lc =
     (if lc = Fr
      then [lit ''Ing'' @ [233] @ lit ''nieur'', lit ''Master'', lit ''Licence'', lit ''DUT'',
 lit ''BTS'', lit ''Dipl'' @ [244] @ lit ''me'', lit ''Doctorat'', lit ''Bachelor'',
 lit ''Technicien'']
      else [lit ''Engineer'', lit ''Master'', lit ''Bachelor'', lit ''Degree'',
 lit ''Diploma'', lit ''PhD'', lit ''Doctorate'', lit ''Associate'',
 lit ''Certificate''])"

definition institutionKeywords :: "jstring list" where
  "institutionKeywords =
     [lit ''Universit'' @ [233], lit ''University'', [201] @ lit ''cole'', lit ''School'',
 lit ''Institut'', lit ''Institute'', lit ''Facult'' @ [233], lit ''Faculty'',
 lit ''College'', lit ''ISTA'']"

definition education_line :: "lang_code \<Rightarrow> jstring \<Rightarrow> education_entry list" where
  "education_line lc l =
     (let line = trim l in
      if test True (Seq Bol (alts (map str [lit ''EDUCATION'', lit ''FORMATION'', [201] @ lit ''DUCATION'']))) line then []
      else if list_ex (\<lambda>kw. test True (keyword_regex kw) line) (degreeKeywords lc)
              \<or> list_ex (\<lambda>kw. test True (keyword_regex kw) line) institutionKeywords
      then (let dateMatch = exec False (seqs [Grp 1 (rep_exact 4 digit), star space, dash, star space,
                                               Grp 2 (rep_exact 4 digit)]) line;
                (deg, inst) =
                  (if str_includes line [124]
                   then (let parts = map trim (split_on 124 line) in
                         (if or_empty parts 0 = [] then line else or_empty parts 0, or_empty parts 1))
                   else (case exec True (Seq (Grp 1 (alts (map str institutionKeywords)))
                                             (star (Cls True [CDigit, CChar 124]))) line of
                           None \<Rightarrow> (line, [])
                         | Some institutionMatch \<Rightarrow>
                             (trim (take (case index_of line (m_whole institutionMatch) of
                                            None \<Rightarrow> 0 | Some instIndex \<Rightarrow> instIndex) line),
                              trim (m_whole institutionMatch))))
            in [\<lparr> degree = trim (replace_first False year_range [] deg),
                   institution = trim (replace_first False year_range [] inst),
                   field_of_study = None,
                   start_date = (case dateMatch of None \<Rightarrow> None | Some r \<Rightarrow> m_groups r 1),
                   end_date = (case dateMatch of None \<Rightarrow> None | Some r \<Rightarrow> m_groups r 2) \<rparr>])
      else [])"

definition extractEducationAdvanced :: "ExtractionContext \<Rightarrow> education_entry list" where
  "extractEducationAdvanced context =
     (case map_get (sections context) (lit ''education'') of
        None \<Rightarrow> []
      | Some sec \<Rightarrow>
          concat (map (education_line (code (language context)))
                      (filter (\<lambda>l. trim l \<noteq> []) (split_on 10 (s_content sec)))))"

section \<open>Skills\<close>

text \<open>
  The skill database. The source writes the entries as patterns, with a backslash before
  the characters \<open>+\<close> and \<open>.\<close>, and stores a found skill without the backslashes;
  here the entries are the stored names, and the pattern of an entry matches its name
  between two word boundaries.
\<close>

definition skillDatabase :: "jstring list" where
  "skillDatabase =
     [lit ''JavaScript'', lit ''TypeScript'', lit ''Python'', lit ''Java'', lit ''C++'',
 lit ''C#'', lit ''PHP'', lit ''Ruby'', lit ''Go'', lit ''Rust'', lit ''Kotlin'',
 lit ''Swift'', lit ''Scala'', lit ''Dart'', lit ''R'', lit ''MATLAB'', lit ''Perl'',
 lit ''Objective-C'', lit ''React'', lit ''Angular'', lit ''Vue.js'', lit ''Svelte'',
 lit ''Next.js'', lit ''Nuxt'', lit ''Gatsby'', lit ''Ember'', lit ''Backbone'',
 lit ''jQuery'', lit ''Redux'', lit ''MobX'', lit ''Vuex'', lit ''Node.js'',
 lit ''Express'', lit ''Django'', lit ''Flask'', lit ''FastAPI'', lit ''Spring'',
 lit ''Spring Boot'', lit ''Laravel'', lit ''Symfony'', lit ''ASP.NET'', lit ''Rails'',
 lit ''Ruby on Rails'', lit ''Gin'', lit ''Echo'', lit ''MySQL'', lit ''PostgreSQL'',
 lit ''MongoDB'', lit ''Redis'', lit ''Elasticsearch'', lit ''Firebase'',
 lit ''DynamoDB'', lit ''Oracle'', lit ''SQL Server'', lit ''MariaDB'', lit ''Cassandra'',
 lit ''Neo4j'', lit ''SQLite'', lit ''CouchDB'', lit ''Hibernate'', lit ''Sequelize'',
 lit ''Mongoose'', lit ''Doctrine'', lit ''TypeORM'', lit ''Prisma'', lit ''Knex'',
 lit ''AWS'', lit ''Azure'', lit ''GCP'', lit ''Google Cloud'', lit ''Docker'',
 lit ''Kubernetes'', lit ''Jenkins'', lit ''GitLab CI'', lit ''GitHub Actions'',
 lit ''CircleCI'', lit ''Travis CI'', lit ''Terraform'', lit ''Ansible'', lit ''Chef'',
 lit ''Puppet'', lit ''Vagrant'', lit ''HTML'', lit ''HTML5'', lit ''CSS'', lit ''CSS3'',
 lit ''SCSS'', lit ''SASS'', lit ''Less'', lit ''Tailwind CSS'', lit ''Bootstrap'',
 lit ''Material-UI'', lit ''Ant Design'', lit ''Chakra UI'', lit ''Styled Components'',
 lit ''React Native'', lit ''Flutter'', lit ''Ionic'', lit ''Xamarin'', lit ''Swift'',
 lit ''Kotlin'', lit ''Android'', lit ''iOS'', lit ''SwiftUI'', lit ''REST'',
 lit ''RESTful'', lit ''GraphQL'', lit ''gRPC'', lit ''WebSocket'', lit ''SOAP'',
 lit ''API'', lit ''Jest'', lit ''Mocha'', lit ''Jasmine'', lit ''Cypress'',
 lit ''Selenium'', lit ''JUnit'', lit ''PyTest'', lit ''TestNG'', lit ''Karma'',
 lit ''Protractor'', lit ''Git'', lit ''GitHub'', lit ''GitLab'', lit ''Bitbucket'',
 lit ''SVN'', lit ''Mercurial'', lit ''Agile'', lit ''Scrum'', lit ''Kanban'',
 lit ''Jira'', lit ''Trello'', lit ''Asana'', lit ''Confluence'', lit ''Microservices'',
 lit ''Serverless'', lit ''Lambda'', lit ''CI/CD'', lit ''Machine Learning'',
 lit ''Deep Learning'', lit ''TensorFlow'', lit ''PyTorch'', lit ''NLP'',
 lit ''Data Science'', lit ''Big Data'', lit ''Hadoop'', lit ''Spark'', lit ''Kafka'',
 lit ''Figma'', lit ''Sketch'', lit ''Adobe XD'', lit ''Photoshop'', lit ''Illustrator'',
 lit ''InVision'', lit ''D'' @ [233] @ lit ''veloppement'', lit ''Programmation'',
 lit ''Base de donn'' @ [233] @ lit ''es'', lit ''Gestion de projet'',
 lit ''M'' @ [233] @ lit ''thodologie Agile'',
 lit ''Int'' @ [233] @ lit ''gration continue'']"

definition set_add :: "'a \<Rightarrow> 'a list \<Rightarrow> 'a list" where
  "set_add x xs = (if List.member xs x then xs else xs @ [x])"

definition skills_in :: "jstring \<Rightarrow> jstring list \<Rightarrow> jstring list" where
  "skills_in content found =
     foldl (\<lambda>acc skill. if test True (keyword_regex skill) content then set_add skill acc else acc)
           found skillDatabase"

definition extractSkillsAdvanced :: "ExtractionContext \<Rightarrow> jstring list" where
  "extractSkillsAdvanced context =
     (let fullText = join [10] (lines context);
          fromSection = (case map_get (sections context) (lit ''skills'') of
                           None \<Rightarrow> []
                         | Some sec \<Rightarrow> skills_in (s_content sec) [])
      in skills_in fullText fromSection)"

section \<open>Languages\<close>

definition proficiencyPattern :: regex where
  "proficiencyPattern =
     seqs [WordB,
           Grp 1 (alts (map str
             [lit ''English'', lit ''French'', lit ''Spanish'', lit ''German'', lit ''Arabic'',
 lit ''Chinese'', lit ''Japanese'', lit ''Portuguese'', lit ''Italian'',
 lit ''Dutch'', lit ''Russian'', lit ''Korean'', lit ''Turkish'', lit ''Hindi'',
 lit ''Anglais'', lit ''Fran'' @ [231] @ lit ''ais'', lit ''Espagnol'',
 lit ''Allemand'', lit ''Arabe'', lit ''Chinois'', lit ''Japonais'',
 lit ''Portugais'', lit ''Italien'', lit ''N'' @ [233] @ lit ''erlandais'',
 lit ''Russe'', lit ''Cor'' @ [233] @ lit ''en'', lit ''Turc''])),
           WordB]"

definition langMap :: "(jstring \<times> jstring) list" where
  "langMap =
     [(lit ''anglais'', lit ''english''),
      (lit ''fran'' @ [231] @ lit ''ais'', lit ''french''),
      (lit ''espagnol'', lit ''spanish''),
      (lit ''allemand'', lit ''german''),
      (lit ''arabe'', lit ''arabic''),
      (lit ''chinois'', lit ''chinese''),
      (lit ''japonais'', lit ''japanese''),
      (lit ''portugais'', lit ''portuguese''),
      (lit ''italien'', lit ''italian''),
      (lit ''n'' @ [233] @ lit ''erlandais'', lit ''dutch''),
      (lit ''russe'', lit ''russian''),
      (lit ''cor'' @ [233] @ lit ''en'', lit ''korean''),
      (lit ''turc'', lit ''turkish'')]"

fun language_names :: "rmatch list \<Rightarrow> jstring list \<Rightarrow> js_error + jstring list" where
  "language_names [] found = Inr found"
| "language_names (r # rs) found =
     (case capture r 1 of
        Inl e \<Rightarrow> Inl e
      | Inr lang \<Rightarrow>
          (let normalizedLang = toLowerCase lang;
               finalLang = (case map_of langMap normalizedLang of
                              None \<Rightarrow> normalizedLang
                            | Some mapped \<Rightarrow> if mapped = [] then normalizedLang else mapped)
           in language_names rs (set_add finalLang found)))"

definition extractLanguagesAdvanced :: "ExtractionContext \<Rightarrow> js_error + jstring list" where
  "extractLanguagesAdvanced context =
     (let searchText = (case map_get (sections context) (lit ''languages'') of
                          None \<Rightarrow> join [10] (lines context)
                        | Some sec \<Rightarrow> s_content sec)
      in language_names (match_all True proficiencyPattern searchText) [])"

section \<open>Certifications\<close>

record certification =
  cert_name :: jstring
  issuer :: jstring
  cert_date :: jstring

definition certification_line :: "jstring \<Rightarrow> certification list" where
  "certification_line line =
     (let trimmed = trim line in
      if test True (Seq Bol (Alt (Seq (str (lit ''CERTIFICATION'')) (opt (Lit 83)))
                                 (Seq (str (lit ''CERTIFICAT'')) (opt (Lit 83))))) trimmed
         \<or> length trimmed = 0
      then []
      else if test False (Seq Bol bullet) trimmed
      then (let cert = trim (replace_first False (seqs [Bol, bullet, star space]) [] trimmed) in
            if test True (Seq Bol (alts (map str [lit ''BACHELOR'', lit ''MASTER'', lit ''ENGINEER'', lit ''ING'' @ [201] @ lit ''NIEUR'', lit ''LICENCE'', lit ''DEGREE'', lit ''DIPLOMA'', lit ''UNIVERSITY'', lit ''UNIVERSIT'' @ [201]]))) cert
            then []
            else if length cert > 3 \<and> length cert < 300
            then [\<lparr> cert_name = trim (replace_first False (rep_exact 4 digit) [] cert),
                    issuer = [],
                    cert_date = (case exec False (Grp 1 (rep_exact 4 digit)) cert of
                                   None \<Rightarrow> []
                                 | Some dateMatch \<Rightarrow>
                                     (case m_groups dateMatch 1 of None \<Rightarrow> [] | Some g \<Rightarrow> g)) \<rparr>]
            else [])
      else [])"

definition extractCertificationsAdvanced :: "ExtractionContext \<Rightarrow> certification list" where
  "extractCertificationsAdvanced context =
     (case map_get (sections context) (lit ''certifications'') of
        None \<Rightarrow> []
      | Some sec \<Rightarrow>
          concat (map certification_line (filter (\<lambda>l. trim l \<noteq> []) (split_on 10 (s_content sec)))))"

section \<open>Projects\<close>

record project =
  proj_name :: jstring
  proj_description :: jstring
  proj_date :: jstring

record project_state =
  projects :: "project list"
  currentProject :: jstring
  currentDescription :: jstring
  currentDate :: jstring

definition flush :: "project_state \<Rightarrow> project list" where
  "flush st =
     projects st @ [\<lparr> proj_name = currentProject st,
                       proj_description = trim (currentDescription st),
                       proj_date = currentDate st \<rparr>]"

text \<open>The tests and the rewritings that a line of the projects section goes through.\<close>

definition project_header :: "jstring \<Rightarrow> bool" where
  "project_header trimmed =
     test True (Seq Bol (Alt (Seq (str (lit ''PROJET'')) (opt (Lit 83)))
                             (Seq (str (lit ''PROJECT'')) (opt (Lit 83))))) trimmed"

definition year_match :: "jstring \<Rightarrow> rmatch option" where
  "year_match trimmed = exec False (Grp 1 (rep_exact 4 digit)) trimmed"

definition bullet_line :: "jstring \<Rightarrow> bool" where
  "bullet_line trimmed = test False (Seq Bol bullet) trimmed"

definition strip_bullet :: "jstring \<Rightarrow> jstring" where
  "strip_bullet trimmed = replace_first False (seqs [Bol, bullet, star space]) [] trimmed"

definition project_name :: "jstring \<Rightarrow> jstring" where
  "project_name trimmed =
     trim (replace_first False bullet [] (replace_first False (rep_exact 4 digit) [] trimmed))"

definition project_step :: "project_state \<Rightarrow> jstring \<Rightarrow> project_state" where
  "project_step st line =
     (let trimmed = trim line in
      if trimmed = [] \<or> project_header trimmed then st
      else
        (case year_match trimmed of
           Some dateMatch \<Rightarrow>
             \<lparr> projects = (if currentProject st \<noteq> [] then flush st else projects st),
               currentProject = project_name trimmed,
               currentDescription = [],
               currentDate = (case m_groups dateMatch 1 of None \<Rightarrow> [] | Some g \<Rightarrow> g) \<rparr>
         | None \<Rightarrow>
             if bullet_line trimmed
             then (if currentProject st \<noteq> [] \<and> currentDescription st \<noteq> []
                   then \<lparr> projects = flush st,
                          currentProject = [],
                          currentDescription = strip_bullet trimmed @ [32],
                          currentDate = currentDate st \<rparr>
                   else st \<lparr> currentDescription := currentDescription st @ strip_bullet trimmed @ [32] \<rparr>)
             else if currentProject st \<noteq> []
             then st \<lparr> currentDescription := currentDescription st @ trimmed @ [32] \<rparr>
             else st))"

definition finish_projects :: "project_state \<Rightarrow> project list" where
  "finish_projects st = (if currentProject st \<noteq> [] then flush st else projects st)"

definition extractProjectsAdvanced :: "ExtractionContext \<Rightarrow> project list" where
  "extractProjectsAdvanced context =
     (case map_get (sections context) (lit ''projects'') of
        None \<Rightarrow> []
      | Some sec \<Rightarrow>
          finish_projects
            (foldl project_step
               \<lparr> projects = [], currentProject = [], currentDescription = [], currentDate = [] \<rparr>
               (split_on 10 (s_content sec))))"

section \<open>Derived metrics\<close>

definition calculateConfidenceScore ::
  "personal_info \<Rightarrow> experience_entry list \<Rightarrow> education_entry list \<Rightarrow> jstring list \<Rightarrow> rat" where
  "calculateConfidenceScore personalInfo exps edus skls =
     min ((if full_name personalInfo \<noteq> [] \<and> full_name personalInfo \<noteq> lit ''Name Not Found'' then 2 / 10 else 0)
          + (if email personalInfo \<noteq> [] then 15 / 100 else 0)
          + (if phone personalInfo \<noteq> [] then 1 / 10 else 0)
          + (if length exps > 0 then 25 / 100 else 0)
          + (if length edus > 0 then 15 / 100 else 0)
          + (if length skls > 5 then 15 / 100 else 0))
         (95 / 100)"

definition experience_years :: "int \<Rightarrow> experience_entry \<Rightarrow> int" where
  "experience_years currentYear entry =
     (let start = parseInt (startDate entry);
          end_y = (if endDate entry = lit ''Present'' \<or> toLowerCase (endDate entry) = lit ''present''
                   then Num currentYear else parseInt (endDate entry))
      in case (start, end_y) of
           (Num s, Num e) \<Rightarrow> if e \<ge> s then e - s else 0
         | _ \<Rightarrow> 0)"

definition calculateExperienceYears :: "int \<Rightarrow> experience_entry list \<Rightarrow> int" where
  "calculateExperienceYears currentYear exps =
     (if length exps = 0 then 0
      else foldl (\<lambda>totalYears entry. totalYears + experience_years currentYear entry) 0 exps)"

definition estimateSeniority :: "int \<Rightarrow> experience_entry list \<Rightarrow> education_entry list \<Rightarrow> jstring" where
  "estimateSeniority years exps edus =
     (let hasAdvancedDegree =
            list_ex (\<lambda>e. test True (alts (map str [lit ''master'', lit ''phd'', lit ''doctorate'', lit ''ing'' @ [233] @ lit ''nieur''])) (degree e)) edus;
          hasLeadRole =
            list_ex (\<lambda>e. test True (words [''lead'', ''senior'', ''principal'', ''architect'', ''chief'', ''director''])
                              (exp_position e)) exps
      in if years = 0 \<and> length edus = 0 then lit ''Entry Level''
         else if years < 2 \<and> \<not> hasAdvancedDegree then lit ''Junior''
         else if years < 5 then (if hasLeadRole then lit ''Mid-Senior'' else lit ''Mid Level'')
         else if years < 10 then (if hasLeadRole then lit ''Senior'' else lit ''Mid-Senior'')
         else lit ''Lead/Principal'')"

definition industries :: "(jstring \<times> jstring list) list" where
  "industries =
     [(lit ''Software Development'',
       [lit ''react'', lit ''angular'', lit ''node'', lit ''python'', lit ''java'', lit ''developer'', lit ''software'']),
      (lit ''Data Science'',
       [lit ''machine learning'', lit ''data science'', lit ''tensorflow'', lit ''pytorch'', lit ''nlp'', lit ''analytics'']),
      (lit ''DevOps'',
       [lit ''docker'', lit ''kubernetes'', lit ''aws'', lit ''azure'', lit ''terraform'', lit ''jenkins'', lit ''ci/cd'']),
      (lit ''Mobile Development'',
       [lit ''react native'', lit ''flutter'', lit ''ios'', lit ''android'', lit ''mobile'']),
      (lit ''Web Development'',
       [lit ''html'', lit ''css'', lit ''javascript'', lit ''frontend'', lit ''backend'', lit ''full stack'']),
      (lit ''Cloud Computing'',
       [lit ''aws'', lit ''azure'', lit ''gcp'', lit ''cloud'', lit ''serverless'', lit ''lambda''])]"

definition detectIndustry :: "jstring list \<Rightarrow> experience_entry list \<Rightarrow> jstring" where
  "detectIndustry skls exps =
     (let skillText = toLowerCase (join [32] skls);
          experienceText = toLowerCase (join [32] (map exp_description exps));
          combined = skillText @ [32] @ experienceText
      in snd (foldl (\<lambda>(maxScore, detectedIndustry) (industry, keywords).
                       let score = length (filter (\<lambda>kw. str_includes combined kw) keywords)
                       in if score > maxScore then (score, industry) else (maxScore, detectedIndustry))
                    (0, []) industries))"

section \<open>The extraction result\<close>

record metadata =
  total_experience_years :: int
  seniority_level :: jstring
  industry :: jstring
  meta_keywords :: "jstring list"

record ExtractionResult =
  confidence_score :: rat
  photo_detected :: bool
  personal :: personal_info
  education :: "education_entry list"
  experience :: "experience_entry list"
  skills :: "jstring list"
  languages :: "jstring list"
  certifications :: "certification list"
  internships :: "project list"
  meta :: metadata

definition performAdvancedExtraction :: "int \<Rightarrow> jstring \<Rightarrow> jstring \<Rightarrow> js_error + ExtractionResult" where
  "performAdvancedExtraction currentYear text docType =
     (let context = buildExtractionContext text docType in
      and_then (extractPersonalInfo context) (\<lambda>personalInfo.
      and_then (extractExperienceAdvanced currentYear context) (\<lambda>exps.
      let edus = extractEducationAdvanced context;
          skls = extractSkillsAdvanced context
      in and_then (extractLanguagesAdvanced context) (\<lambda>langs.
         let certs = extractCertificationsAdvanced context;
             projs = extractProjectsAdvanced context;
             totalExperienceYears = calculateExperienceYears currentYear exps;
             seniorityLevel = estimateSeniority totalExperienceYears exps edus;
             ind = detectIndustry skls exps
         in Inr \<lparr> confidence_score = calculateConfidenceScore personalInfo exps edus skls,
                  photo_detected = False,
                  personal = personalInfo,
                  education = edus,
                  experience = exps,
                  skills = skls,
                  languages = langs,
                  certifications = certs,
                  internships = projs,
                  meta = \<lparr> total_experience_years = totalExperienceYears,
                            seniority_level = seniorityLevel,
                            industry = ind,
                            meta_keywords = skls @ langs \<rparr> \<rparr>))))"

section \<open>The summary\<close>

definition summary_parts :: "ExtractionResult \<Rightarrow> jstring list" where
  "summary_parts data =
     (if full_name (personal data) \<noteq> [] \<and> full_name (personal data) \<noteq> lit ''Name Not Found''
      then [full_name (personal data)] else [])
     @ (if position (personal data) \<noteq> [] then [lit ''working as '' @ position (personal data)]
        else if seniority_level (meta data) \<noteq> lit ''Entry Level''
        then [seniority_level (meta data) @ lit '' professional'']
        else [])
     @ (if industry (meta data) \<noteq> [] then [lit ''in '' @ industry (meta data)] else [])"

definition summary_details :: "ExtractionResult \<Rightarrow> jstring list" where
  "summary_details data =
     (if length (experience data) > 0
      then [toString (Num (int (length (experience data)))) @ lit '' professional experience(s)''] else [])
     @ (if length (education data) > 0
        then [toString (Num (int (length (education data)))) @ lit '' educational qualification(s)''] else [])
     @ (if length (skills data) > 0
        then [lit ''Skilled in: '' @ join (lit '', '') (take 6 (skills data))] else [])
     @ (if length (languages data) > 0
        then [lit ''Languages: '' @ join (lit '', '') (languages data)] else [])"

definition generateAdvancedSummary :: "ExtractionResult \<Rightarrow> jstring" where
  "generateAdvancedSummary data =
     join [32] (summary_parts data) @ lit ''. '' @ join (lit ''. '') (summary_details data) @ lit ''.''"

section \<open>Properties of the language detector\<close>

lemma classify_cases:
  "(classify fs es = Fr \<longleftrightarrow> (of_nat fs :: rat) > of_nat es * (3 / 2))
   \<and> (classify fs es = En \<longleftrightarrow> (of_nat es :: rat) > of_nat fs * (3 / 2))
   \<and> (classify fs es = Mixed
        \<longleftrightarrow> \<not> (of_nat fs :: rat) > of_nat es * (3 / 2) \<and> \<not> (of_nat es :: rat) > of_nat fs * (3 / 2))"
proof -
  have "\<not> ((of_nat fs :: rat) > of_nat es * (3 / 2) \<and> (of_nat es :: rat) > of_nat fs * (3 / 2))"
  proof
    assume h: "(of_nat fs :: rat) > of_nat es * (3 / 2) \<and> (of_nat es :: rat) > of_nat fs * (3 / 2)"
    have "(0::rat) \<le> of_nat fs" "(0::rat) \<le> of_nat es" by simp_all
    with h show False by linarith
  qed
  then show ?thesis by (auto simp: classify_def)
qed

lemma detect_code:
  "code (detectLanguage text) = classify (frenchScore (detectLanguage text)) (englishScore (detectLanguage text))"
  by (simp add: detectLanguage_def Let_def)

lemma detect_empty:
  "detectLanguage [] = \<lparr> code = Mixed, confidence = 1 / 2, frenchScore = 0, englishScore = 0 \<rparr>"
  by code_simp

text \<open>
  C3, as the code has it. A text in which no keyword of either list occurs has both scores
  0; the detector then returns the confidence 1/2, and the code \<open>mixed\<close>: neither score
  exceeds one and a half times the other, so the last branch of the classification is
  taken. The code \<open>en\<close> is only the initial value of the variable, which every branch
  overwrites.
\<close>

theorem zero_scores_give_mixed:
  assumes "frenchScore (detectLanguage text) = 0" and "englishScore (detectLanguage text) = 0"
  shows "confidence (detectLanguage text) = 1 / 2 \<and> code (detectLanguage text) = Mixed"
proof -
  from assms have "keyword_score frenchKeywords (toLowerCase text) = 0"
    and "keyword_score englishKeywords (toLowerCase text) = 0"
    by (simp_all add: detectLanguage_def Let_def)
  then show ?thesis
    by (simp add: detectLanguage_def Let_def classify_def)
qed

theorem zero_scores_give_mixed_witness:
  "frenchScore (detectLanguage []) = 0 \<and> englishScore (detectLanguage []) = 0
   \<and> confidence (detectLanguage []) = 1 / 2 \<and> code (detectLanguage []) = Mixed"
proof -
  have f: "frenchScore (detectLanguage []) = 0" and e: "englishScore (detectLanguage []) = 0"
    by (simp_all add: detect_empty)
  from zero_scores_give_mixed [OF f e] f e show ?thesis by simp
qed

theorem zero_scores_not_english:
  "\<not> (frenchScore (detectLanguage []) = 0 \<and> englishScore (detectLanguage []) = 0
       \<longrightarrow> confidence (detectLanguage []) = 1 / 2 \<and> code (detectLanguage []) = En)"
  by (simp add: detect_empty)

text \<open>
  C8. The code is \<open>fr\<close> exactly when the French score exceeds one and a half times the
  English score, \<open>en\<close> exactly when the English score exceeds one and a half times the
  French score, and \<open>mixed\<close> otherwise; the scores 10 and 3 give \<open>fr\<close>, the scores 10
  and 8 give \<open>mixed\<close>.
\<close>

theorem language_classification:
  "(code (detectLanguage text) = Fr
      \<longleftrightarrow> (of_nat (frenchScore (detectLanguage text)) :: rat)
            > of_nat (englishScore (detectLanguage text)) * (3 / 2))
   \<and> (code (detectLanguage text) = En
      \<longleftrightarrow> (of_nat (englishScore (detectLanguage text)) :: rat)
            > of_nat (frenchScore (detectLanguage text)) * (3 / 2))
   \<and> (code (detectLanguage text) = Mixed
      \<longleftrightarrow> \<not> (of_nat (frenchScore (detectLanguage text)) :: rat)
              > of_nat (englishScore (detectLanguage text)) * (3 / 2)
        \<and> \<not> (of_nat (englishScore (detectLanguage text)) :: rat)
              > of_nat (frenchScore (detectLanguage text)) * (3 / 2))
   \<and> (frenchScore (detectLanguage text) = 10 \<and> englishScore (detectLanguage text) = 3
      \<longrightarrow> code (detectLanguage text) = Fr)
   \<and> (frenchScore (detectLanguage text) = 10 \<and> englishScore (detectLanguage text) = 8
      \<longrightarrow> code (detectLanguage text) = Mixed)"
proof -
  have a: "classify 10 3 = Fr" by (simp add: classify_def)
  have b: "classify 10 8 = Mixed" by (simp add: classify_def)
  show ?thesis
    using classify_cases [of "frenchScore (detectLanguage text)" "englishScore (detectLanguage text)"] a b
    unfolding detect_code by auto
qed

definition french10_english3 :: jstring where
  "french10_english3 =
     lit ''poste poste poste poste poste poste poste poste poste poste role role role''"

definition french10_english8 :: jstring where
  "french10_english8 =
     lit ''poste poste poste poste poste poste poste poste poste poste role role role role role role role role''"

lemma scores_10_3:
  "keyword_score frenchKeywords (toLowerCase french10_english3) = 10"
  "keyword_score englishKeywords (toLowerCase french10_english3) = 3"
  by code_simp+

lemma scores_10_8:
  "keyword_score frenchKeywords (toLowerCase french10_english8) = 10"
  "keyword_score englishKeywords (toLowerCase french10_english8) = 8"
  by code_simp+

theorem language_classification_witness:
  "frenchScore (detectLanguage french10_english3) = 10
   \<and> englishScore (detectLanguage french10_english3) = 3
   \<and> code (detectLanguage french10_english3) = Fr
   \<and> frenchScore (detectLanguage french10_english8) = 10
   \<and> englishScore (detectLanguage french10_english8) = 8
   \<and> code (detectLanguage french10_english8) = Mixed"
proof -
  have s3: "frenchScore (detectLanguage french10_english3) = 10 \<and> englishScore (detectLanguage french10_english3) = 3"
    by (simp add: detectLanguage_def Let_def scores_10_3)
  have s8: "frenchScore (detectLanguage french10_english8) = 10 \<and> englishScore (detectLanguage french10_english8) = 8"
    by (simp add: detectLanguage_def Let_def scores_10_8)
  from language_classification [of french10_english3] language_classification [of french10_english8] s3 s8
  show ?thesis by blast
qed

section \<open>Captures of a successful match\<close>

text \<open>
  A pattern is \<open>nonnull\<close> when it cannot match the empty text; \<open>captured\<close> lists the
  groups that take part in every match of a pattern with a text that is not empty.
  \<open>passes re x y\<close> relates the state \<open>x\<close> in which a pattern starts to the state \<open>y\<close>
  that it gives to its continuation.
\<close>

fun nonnull :: "regex \<Rightarrow> bool" where
  "nonnull (Lit c) = True"
| "nonnull (Cls neg items) = True"
| "nonnull (Seq a b) = (nonnull a \<or> nonnull b)"
| "nonnull (Alt a b) = (nonnull a \<and> nonnull b)"
| "nonnull (Grp i r) = nonnull r"
| "nonnull r = False"

fun captured :: "regex \<Rightarrow> nat list" where
  "captured (Grp i r) = (if nonnull r then i # captured r else removeAll i (captured r))"
| "captured (Seq a b) = filter (\<lambda>i. \<not> List.member (grps b) i) (captured a) @ captured b"
| "captured (Alt a b) = filter (\<lambda>i. List.member (captured b) i) (captured a)"
| "captured r = []"

definition passes :: "regex \<Rightarrow> mstate \<Rightarrow> mstate \<Rightarrow> bool" where
  "passes re x y =
     (length (rest y) \<le> length (rest x)
      \<and> (nonnull re \<longrightarrow> length (rest y) < length (rest x))
      \<and> (\<forall>i. i \<notin> set (grps re) \<longrightarrow> caps y i = caps x i)
      \<and> (\<forall>i \<in> set (captured re). \<exists>g. caps y i = Some g \<and> g \<noteq> []))"

lemma passes_refl: "passes (Star mx g r) x x"
  by (simp add: passes_def)

lemma passes_star_step:
  assumes "passes r (clear_caps (grps r) x) y1" and "length (rest y1) < length (rest x)"
    and "passes (Star mx' g r) y1 y"
  shows "passes (Star mx g r) x y"
  using assms by (auto simp: passes_def clear_caps_def)

lemma m_passes:
  "m ic re k x = Some z \<Longrightarrow> \<exists>y. k y = Some z \<and> passes re x y"
proof (induction ic re k x arbitrary: z rule: m.induct)
  case (1 ic k x)
  then show ?case by (auto simp: passes_def)
next
  case (2 ic c k x)
  then show ?case by (auto simp: passes_def split: list.splits if_splits)
next
  case (3 ic neg items k x)
  then show ?case by (auto simp: passes_def split: list.splits if_splits)
next
  case (4 ic a b k x)
  from 4(3) have "m ic a (m ic b k) x = Some z" by simp
  from 4(2) [OF this] obtain y1 where y1: "m ic b k y1 = Some z" "passes a x y1" by blast
  from 4(1) [OF y1(1)] obtain y2 where y2: "k y2 = Some z" "passes b y1 y2" by blast
  from y1(2) y2(2) have "passes (Seq a b) x y2"
    by (auto simp: passes_def)
  with y2(1) show ?case by blast
next
  case (5 ic a b k x)
  show ?case
  proof (cases "m ic a k x")
    case None
    with 5(3) have "m ic b k x = Some z" by simp
    from 5(2) [OF None this] obtain y where "k y = Some z" "passes b x y" by blast
    then show ?thesis by (auto simp: passes_def)
  next
    case (Some z')
    with 5(3) have "m ic a k x = Some z" by simp
    from 5(1) [OF this] obtain y where "k y = Some z" "passes a x y" by blast
    then show ?thesis by (auto simp: passes_def)
  qed
next
  case (6 ic mx g r k x)
  let ?K = "\<lambda>y. if length (rest y) < length (rest x) then m ic (Star (dec_max mx) g r) k y else None"
  show ?case
  proof (cases "mx = Some 0 \<or> k x = Some z")
    case True
    with 6(5) have "k x = Some z" by (auto split: if_splits)
    then show ?thesis using passes_refl by blast
  next
    case False
    then have mx: "mx \<noteq> Some 0" and kx: "k x \<noteq> Some z" by simp_all
    have it: "m ic r ?K (clear_caps (grps r) x) = Some z"
      using 6(5) mx kx by (auto split: if_splits option.splits)
    show ?thesis
    proof (cases g)
      case True
      from 6(2) [OF mx True it] obtain y1 where y1: "?K y1 = Some z" "passes r (clear_caps (grps r) x) y1"
        by blast
      from y1(1) have lt: "length (rest y1) < length (rest x)"
        and st: "m ic (Star (dec_max mx) g r) k y1 = Some z" by (auto split: if_splits)
      from 6(1) [OF mx True lt st] obtain y where y: "k y = Some z" "passes (Star (dec_max mx) g r) y1 y"
        by blast
      from passes_star_step [OF y1(2) lt y(2)] y(1) show ?thesis by blast
    next
      case False
      have none: "k x = None" using 6(5) mx kx False by (auto split: if_splits option.splits)
      from 6(4) [OF mx False none it] obtain y1 where y1: "?K y1 = Some z" "passes r (clear_caps (grps r) x) y1"
        by blast
      from y1(1) have lt: "length (rest y1) < length (rest x)"
        and st: "m ic (Star (dec_max mx) g r) k y1 = Some z" by (auto split: if_splits)
      from 6(3) [OF mx False none lt st] obtain y where y: "k y = Some z" "passes (Star (dec_max mx) g r) y1 y"
        by blast
      from passes_star_step [OF y1(2) lt y(2)] y(1) show ?thesis by blast
    qed
  qed
next
  case (7 ic i r k x)
  let ?K = "\<lambda>y. k (MState (prev y) (rest y) ((caps y)(i \<mapsto> take (length (rest x) - length (rest y)) (rest x))))"
  from 7(2) have "m ic r ?K x = Some z" by simp
  from 7(1) [OF this] obtain y where y: "?K y = Some z" "passes r x y" by blast
  let ?y = "MState (prev y) (rest y) ((caps y)(i \<mapsto> take (length (rest x) - length (rest y)) (rest x)))"
  from y(2) have "passes (Grp i r) x ?y"
    by (auto simp: passes_def)
  with y(1) show ?case by blast
next
  case (8 ic k x)
  then show ?case by (auto simp: passes_def split: if_splits)
next
  case (9 ic k x)
  then show ?case by (auto simp: passes_def split: if_splits)
next
  case (10 ic k x)
  then show ?case by (auto simp: passes_def split: if_splits)
next
  case (11 ic r k x)
  then show ?case by (auto simp: passes_def split: option.splits)
next
  case (12 ic items k x)
  then show ?case by (auto simp: passes_def split: option.splits if_splits)
qed

lemma search_from_captured:
  "search_from ic re p s = Some (start, y) \<Longrightarrow> i \<in> set (captured re)
   \<Longrightarrow> \<exists>g. caps y i = Some g \<and> g \<noteq> []"
proof (induction s arbitrary: p)
  case Nil
  then show ?case using m_passes [of ic re Some "MState p [] (\<lambda>_. None)" y]
    by (auto simp: passes_def search_from.simps split: option.splits)
next
  case (Cons c cs)
  show ?case
  proof (cases "m ic re Some (MState p (c # cs) (\<lambda>_. None))")
    case None
    with Cons.prems have "search_from ic re (Some c) cs = Some (start, y)"
      by (simp add: search_from.simps)
    from Cons.IH [OF this Cons.prems(2)] show ?thesis .
  next
    case (Some z)
    with Cons.prems have "z = y" by (simp add: search_from.simps)
    with Some m_passes [of ic re Some "MState p (c # cs) (\<lambda>_. None)" y] Cons.prems(2)
    show ?thesis by (auto simp: passes_def)
  qed
qed

lemma exec_captured:
  "exec ic re s = Some r \<Longrightarrow> i \<in> set (captured re) \<Longrightarrow> \<exists>g. capture r i = Inr g \<and> g \<noteq> []"
  using search_from_captured [of ic re None s _ _ i]
  by (auto simp: exec_def mk_match_def capture_def split: prod.splits)

section \<open>The engine does not throw\<close>

text \<open>
  Every capture on which the source calls a method takes part in every match of its
  pattern, and the lines read before a date line are lines of the section.
\<close>

lemma phone_captured: "1 \<in> set (captured phonePattern)" by code_simp
lemma email_captured: "1 \<in> set (captured emailPattern)" by code_simp
lemma city_captured: "1 \<in> set (captured cityCountryPattern)" "2 \<in> set (captured cityCountryPattern)" by code_simp+
lemma label_captured: "1 \<in> set (captured locationLabelPattern)" by code_simp
lemma insection_captured: "1 \<in> set (captured locationInSectionPattern)" by code_simp
lemma company_captured: "1 \<in> set (captured companyPattern)" by code_simp
lemma proficiency_captured: "1 \<in> set (captured proficiencyPattern)" by code_simp
lemma date0_captured: "1 \<in> set (captured (datePatterns ! 0))" "2 \<in> set (captured (datePatterns ! 0))" by code_simp+
lemma date2_captured: "1 \<in> set (captured (datePatterns ! 2))" "2 \<in> set (captured (datePatterns ! 2))" by code_simp+


lemma match_all_from_captured:
  "r \<in> set (match_all_from ic re p s) \<Longrightarrow> i \<in> set (captured re)
   \<Longrightarrow> \<exists>g. capture r i = Inr g \<and> g \<noteq> []"
proof (induction ic re p s rule: match_all_from.induct)
  case (1 ic re p s)
  show ?case
  proof (cases "search_from ic re p s")
    case None
    with 1(3) match_all_from.simps [of ic re p s] show ?thesis by simp
  next
    case (Some fy)
    obtain start y where fy: "fy = (start, y)" by (cases fy)
    note found = Some [unfolded fy]
    show ?thesis
    proof (cases "r = mk_match s (start, y)")
      case True
      with search_from_captured [OF found 1(4)] show ?thesis
        by (auto simp: mk_match_def capture_def)
    next
      case False
      with 1(3) found match_all_from.simps [of ic re p s] have later:
        "r \<in> set (if length (rest y) = length start
                   then (case rest y of [] \<Rightarrow> []
                         | c # cs \<Rightarrow> if length cs < length s then match_all_from ic re (Some c) cs else [])
                   else if length (rest y) < length s then match_all_from ic re (prev y) (rest y)
                   else [])"
        by simp
      show ?thesis
      proof (cases "length (rest y) = length start")
        case True
        show ?thesis
        proof (cases "rest y")
          case Nil
          with later True show ?thesis by simp
        next
          case (Cons c cs)
          with later True have c: "length cs < length s" "r \<in> set (match_all_from ic re (Some c) cs)"
            by (auto split: if_splits)
          from 1(1) [OF found refl True Cons c(1) c(2) 1(4)] show ?thesis .
        qed
      next
        case False
        with later have lt: "length (rest y) < length s" and "r \<in> set (match_all_from ic re (prev y) (rest y))"
          by (auto split: if_splits)
        from 1(2) [OF found refl False lt this(2) 1(4)] show ?thesis .
      qed
    qed
  qed
qed


lemma split_on_nonempty: "split_on c s \<noteq> []"
  by (induction s) (auto split: list.splits)

lemma first_some_err_ok:
  "(\<And>x. \<exists>v. f x = Inr v) \<Longrightarrow> \<exists>v. first_some_err f xs = Inr v"
proof (induction xs)
  case Nil
  show ?case by simp
next
  case (Cons x xs)
  from Cons.prems obtain v where "f x = Inr v" by blast
  with Cons.IH [OF Cons.prems] show ?case by (cases v) auto
qed

lemma location_line_ok: "\<exists>v. location_line line = Inr v"
proof (cases "find (\<lambda>city. toLowerCase (trim line) = toLowerCase city) validCities")
  case (Some city)
  then show ?thesis by (simp add: location_line_def)
next
  case None
  show ?thesis
  proof (cases "exec True locationLabelPattern (trim line)")
    case no: None
    with None show ?thesis by (simp add: location_line_def)
  next
    case (Some r)
    from exec_captured [OF Some label_captured] obtain g where "capture r 1 = Inr g" by blast
    with None Some show ?thesis
      using split_on_nonempty [of 10 g]
      by (auto simp: location_line_def and_then_def Let_def split: list.splits)
  qed
qed

lemma location_candidates_ok:
  "(\<And>r. r \<in> set rs \<Longrightarrow> \<exists>g. capture r 1 = Inr g) \<Longrightarrow> \<exists>v. location_candidates rs = Inr v"
proof (induction rs)
  case Nil
  show ?case by simp
next
  case (Cons r rs)
  from Cons.prems obtain g where "capture r 1 = Inr g" by auto
  moreover from Cons obtain v where "location_candidates rs = Inr v" by auto
  ultimately show ?case by simp
qed

lemma location_fallback_ok: "\<exists>v. location_fallback ctx = Inr v"
proof -
  obtain v where v: "first_some_err location_line (take 20 (lines ctx)) = Inr v"
    using first_some_err_ok [of location_line] location_line_ok by blast
  have "\<exists>c. location_candidates (match_all False locationInSectionPattern (join [10] (lines ctx))) = Inr c"
  proof (rule location_candidates_ok)
    fix r
    assume "r \<in> set (match_all False locationInSectionPattern (join [10] (lines ctx)))"
    then have "r \<in> set (match_all_from False locationInSectionPattern None (join [10] (lines ctx)))"
      by (simp add: match_all_def)
    from match_all_from_captured [OF this insection_captured] show "\<exists>g. capture r 1 = Inr g"
      by blast
  qed
  with v show ?thesis
    by (cases v) (auto simp: location_fallback_def and_then_def)
qed

lemma extractLocation_ok: "\<exists>v. extractLocation ctx = Inr v"
proof (cases "exec False cityCountryPattern (join [10] (lines ctx))")
  case None
  with location_fallback_ok show ?thesis by (simp add: extractLocation_def)
next
  case (Some r)
  from exec_captured [OF Some city_captured(1)] obtain g1 where g1: "capture r 1 = Inr g1" by blast
  from exec_captured [OF Some city_captured(2)] obtain g2 where g2: "capture r 2 = Inr g2" by blast
  from Some g1 g2 location_fallback_ok [of ctx] show ?thesis
    by (auto simp: extractLocation_def and_then_def Let_def)
qed

lemma extractPersonalInfo_ok: "\<exists>v. extractPersonalInfo ctx = Inr v"
proof -
  let ?t = "join [10] (lines ctx)"
  have p: "\<exists>v. (case exec True phonePattern ?t of None \<Rightarrow> Inr []
                 | Some r \<Rightarrow> and_then (capture r 1) (\<lambda>g. Inr (clean_phone g))) = Inr v"
  proof (cases "exec True phonePattern ?t")
    case None
    then show ?thesis by simp
  next
    case (Some r)
    from exec_captured [OF Some phone_captured] obtain g where "capture r 1 = Inr g" by blast
    with Some show ?thesis by (simp add: and_then_def)
  qed
  have e: "\<exists>v. (case exec False emailPattern ?t of None \<Rightarrow> Inr []
                 | Some r \<Rightarrow> and_then (capture r 1) (\<lambda>g. Inr (trim g))) = Inr v"
  proof (cases "exec False emailPattern ?t")
    case None
    then show ?thesis by simp
  next
    case (Some r)
    from exec_captured [OF Some email_captured] obtain g where "capture r 1 = Inr g" by blast
    with Some show ?thesis by (simp add: and_then_def)
  qed
  from p e extractLocation_ok [of ctx] show ?thesis
    by (auto simp: extractPersonalInfo_def Let_def and_then_def)
qed


lemma look_back_line_ok: "\<exists>v. look_back_line prevLine st = Inr v"
proof -
  obtain pos cmp loc where st: "st = (pos, cmp, loc)" by (cases st)
  have c: "\<exists>v. (case exec False companyPattern prevLine of
                   None \<Rightarrow> Inr cmp
                 | Some companyMatch \<Rightarrow>
                     if cmp = [] then and_then (capture companyMatch 1) (\<lambda>g. Inr (trim g))
                     else Inr cmp) = Inr v"
  proof (cases "exec False companyPattern prevLine")
    case None
    then show ?thesis by simp
  next
    case (Some r)
    from exec_captured [OF Some company_captured] obtain g where "capture r 1 = Inr g" by blast
    with Some show ?thesis by (simp add: and_then_def)
  qed
  then show ?thesis
    unfolding st look_back_line_def by (auto simp: and_then_def Let_def)
qed

lemma look_back_ok:
  "i \<le> length ls \<Longrightarrow> \<exists>v. look_back ls j i st = Inr v"
proof (induction ls j i st rule: look_back.induct)
  case (1 ls j i st)
  show ?case
  proof (cases "j < i")
    case False
    then have "look_back ls j i st = Inr st" by (simp add: look_back.simps [of ls j i st])
    then show ?thesis by blast
  next
    case True
    with 1(2) have el: "element ls j = Inr (ls ! j)" by (simp add: element_def)
    obtain stop st' where lb: "look_back_line (ls ! j) st = Inr (stop, st')"
      using look_back_line_ok [of "ls ! j" st] by (metis surj_pair)
    show ?thesis
    proof (cases stop)
      case stop: True
      with True el lb have "look_back ls j i st = Inr st'" by (simp add: look_back.simps [of ls j i st])
      then show ?thesis by blast
    next
      case go: False
      from True el lb go have "look_back ls j i st = look_back ls (j + 1) i st'"
        by (simp add: look_back.simps [of ls j i st])
      with 1(1) [OF True el lb refl go 1(2)] show ?thesis by simp
    qed
  qed
qed

lemma make_entry_ok:
  assumes "i \<le> length ls"
  shows "\<exists>e. make_entry currentYear ls i startYear endYear = Inr e"
proof -
  from look_back_ok [OF assms, of "i - 5" "([], [], [])"]
  obtain pos cmp loc where "look_back ls (i - 5) i ([], [], []) = Inr (pos, cmp, loc)"
    by (metis surj_pair)
  then show ?thesis by (simp add: make_entry_def and_then_def)
qed

lemma try_patterns_complete:
  assumes "1 \<in> set (captured pattern)" and "2 \<in> set (captured pattern)" and "i \<le> length ls"
    and "\<exists>v. try_patterns currentYear ls line patterns i = Inr v"
  shows "\<exists>v. try_patterns currentYear ls line (pattern # patterns) i = Inr v"
proof (cases "exec True pattern line")
  case None
  with assms(4) show ?thesis by simp
next
  case (Some r)
  from exec_captured [OF Some assms(1)] obtain g1 where g1: "m_groups r 1 = Some g1" "g1 \<noteq> []"
    by (auto simp: capture_def split: option.splits)
  from exec_captured [OF Some assms(2)] obtain g2 where g2: "m_groups r 2 = Some g2" "g2 \<noteq> []"
    by (auto simp: capture_def split: option.splits)
  obtain sy ey where pr: "parse_range r g1 g2 = (sy, ey)" by (cases "parse_range r g1 g2")
  from make_entry_ok [OF assms(3), of currentYear sy ey] Some g1 g2 pr show ?thesis
    by (auto simp: and_then_def)
qed

lemma try_patterns_partial:
  assumes "i \<le> length ls"
    and "\<exists>v. try_patterns currentYear ls line patterns i = Inr v"
    and "\<exists>v. try_patterns currentYear ls line patterns (i + 1) = Inr v"
  shows "\<exists>v. try_patterns currentYear ls line (pattern # patterns) i = Inr v"
proof (cases "exec True pattern line")
  case None
  with assms(2) show ?thesis by simp
next
  case (Some r)
  show ?thesis
  proof (cases "\<exists>g1 g2. m_groups r 1 = Some g1 \<and> m_groups r 2 = Some g2 \<and> g1 \<noteq> [] \<and> g2 \<noteq> []")
    case True
    then obtain g1 g2 where g: "m_groups r 1 = Some g1" "m_groups r 2 = Some g2" "g1 \<noteq> []" "g2 \<noteq> []"
      by blast
    obtain sy ey where pr: "parse_range r g1 g2 = (sy, ey)" by (cases "parse_range r g1 g2")
    from make_entry_ok [OF assms(1), of currentYear sy ey] Some g pr show ?thesis
      by (auto simp: and_then_def)
  next
    case False
    with Some have "try_patterns currentYear ls line (pattern # patterns) i
        = try_patterns currentYear ls line patterns (i + 1)"
      by (auto split: option.splits)
    with assms(3) show ?thesis by simp
  qed
qed

lemma datePatterns_list: "datePatterns = [datePatterns ! 0, datePatterns ! 1, datePatterns ! 2]"
  by (simp add: datePatterns_def)

lemma try_datePatterns_ok:
  assumes "i < length ls"
  shows "\<exists>v. try_patterns currentYear ls line datePatterns i = Inr v"
proof -
  have e: "\<exists>v. try_patterns currentYear ls line [] j = Inr v" for j by simp
  from assms have le: "i \<le> length ls" and le': "i + 1 \<le> length ls" by simp_all
  have p2: "\<exists>v. try_patterns currentYear ls line [datePatterns ! 2] i = Inr v"
    by (rule try_patterns_complete [OF date2_captured(1) date2_captured(2) le e])
  have p2': "\<exists>v. try_patterns currentYear ls line [datePatterns ! 2] (i + 1) = Inr v"
    by (rule try_patterns_complete [OF date2_captured(1) date2_captured(2) le' e])
  have p1: "\<exists>v. try_patterns currentYear ls line [datePatterns ! 1, datePatterns ! 2] i = Inr v"
    by (rule try_patterns_partial [OF le p2 p2'])
  have "\<exists>v. try_patterns currentYear ls line [datePatterns ! 0, datePatterns ! 1, datePatterns ! 2] i = Inr v"
    by (rule try_patterns_complete [OF date0_captured(1) date0_captured(2) le p1])
  then show ?thesis by (subst datePatterns_list)
qed

lemma exp_loop_ok: "\<exists>v. exp_loop currentYear ls i experiences = Inr v"
proof (induction currentYear ls i experiences rule: exp_loop.induct)
  case (1 currentYear ls i experiences)
  show ?case
  proof (cases "i < length ls")
    case False
    then show ?thesis by (simp add: exp_loop.simps [of currentYear ls i experiences])
  next
    case True
    let ?hdr = "test True (Seq Bol (alts (map str [lit ''EXPERIENCE'', lit ''EXP'' @ [201] @ lit ''RIENCE'',
              lit ''PROFESSIONAL'', lit ''PARCOURS'']))) (ls ! i)"
    show ?thesis
    proof (cases ?hdr)
      case hdr: True
      from 1(1) [OF True hdr] True hdr show ?thesis
        by (simp add: exp_loop.simps [of currentYear ls i experiences])
    next
      case nohdr: False
      obtain i' found where tp: "try_patterns currentYear ls (ls ! i) datePatterns i = Inr (i', found)"
        using try_datePatterns_ok [OF True, of currentYear "ls ! i"] by (metis surj_pair)
      from 1(2) [OF True nohdr tp refl] True nohdr tp show ?thesis
        by (simp add: exp_loop.simps [of currentYear ls i experiences])
    qed
  qed
qed

lemma extractExperienceAdvanced_ok: "\<exists>v. extractExperienceAdvanced currentYear ctx = Inr v"
  using exp_loop_ok by (auto simp: extractExperienceAdvanced_def split: option.splits)

lemma language_names_ok:
  "(\<And>r. r \<in> set rs \<Longrightarrow> \<exists>g. capture r 1 = Inr g) \<Longrightarrow> \<exists>v. language_names rs found = Inr v"
proof (induction rs arbitrary: found)
  case Nil
  show ?case by simp
next
  case (Cons r rs)
  from Cons.prems obtain g where "capture r 1 = Inr g" by auto
  moreover have "\<And>f. \<exists>v. language_names rs f = Inr v" using Cons by auto
  ultimately show ?case by (simp add: Let_def)
qed

lemma extractLanguagesAdvanced_ok: "\<exists>v. extractLanguagesAdvanced ctx = Inr v"
proof -
  have "\<exists>v. language_names (match_all True proficiencyPattern t) [] = Inr v" for t
  proof (rule language_names_ok)
    fix r
    assume "r \<in> set (match_all True proficiencyPattern t)"
    then have "r \<in> set (match_all_from True proficiencyPattern None t)" by (simp add: match_all_def)
    from match_all_from_captured [OF this proficiency_captured] show "\<exists>g. capture r 1 = Inr g" by blast
  qed
  then show ?thesis by (simp add: extractLanguagesAdvanced_def Let_def)
qed

lemma performAdvancedExtraction_ok:
  "\<exists>r. performAdvancedExtraction currentYear text docType = Inr r"
proof -
  let ?c = "buildExtractionContext text docType"
  obtain p where p: "extractPersonalInfo ?c = Inr p" using extractPersonalInfo_ok by blast
  obtain e where e: "extractExperienceAdvanced currentYear ?c = Inr e" using extractExperienceAdvanced_ok by blast
  obtain l where l: "extractLanguagesAdvanced ?c = Inr l" using extractLanguagesAdvanced_ok by blast
  show ?thesis by (simp add: performAdvancedExtraction_def Let_def and_then_def p e l)
qed






section \<open>Properties of the section map\<close>

lemma map_set_fresh: "k \<notin> fst ` set kvs \<Longrightarrow> map_set k v kvs = kvs @ [(k, v)]"
  by (induction kvs) auto

lemma fold_map_set_distinct:
  "distinct (map fst (acc @ kvs))
   \<Longrightarrow> foldl (\<lambda>sections (name, sec). map_set name sec sections) acc kvs = acc @ kvs"
proof (induction kvs arbitrary: acc)
  case Nil
  show ?case by simp
next
  case (Cons kv kvs)
  obtain k v where kv: "kv = (k, v)" by (cases kv)
  from Cons.prems kv have fresh: "k \<notin> fst ` set acc" by auto
  from Cons.prems kv have "distinct (map fst ((acc @ [(k, v)]) @ kvs))" by simp
  from Cons.IH [OF this] show ?case by (simp add: kv map_set_fresh [OF fresh])
qed

lemma section_spans_length: "length (section_spans ls st) = length st"
  by (induction ls st rule: section_spans.induct) simp_all

lemma section_spans_names: "map fst (section_spans ls st) = map fst st"
  by (induction ls st rule: section_spans.induct) simp_all

lemma section_spans_starts: "map (\<lambda>kv. s_start (snd kv)) (section_spans ls st) = map snd st"
  by (induction ls st rule: section_spans.induct) simp_all

lemma section_spans_chain:
  "Suc i < length st
   \<Longrightarrow> s_end (snd (section_spans ls st ! i)) = s_start (snd (section_spans ls st ! Suc i))"
proof (induction ls st arbitrary: i rule: section_spans.induct)
  case (1 ls)
  then show ?case by simp
next
  case (2 ls name j)
  then show ?case by simp
next
  case (3 ls name j name' j' others)
  show ?case
  proof (cases i)
    case 0
    then show ?thesis by (cases others) auto
  next
    case (Suc n)
    with 3 show ?thesis by simp
  qed
qed

lemma section_spans_last:
  "st \<noteq> [] \<Longrightarrow> s_end (snd (last (section_spans ls st))) = length ls"
proof (induction ls st rule: section_spans.induct)
  case (3 ls name j name' j' others)
  then show ?case by (cases others) auto
qed simp_all

lemma distinct_names_sort:
  "distinct (map fst xs) \<Longrightarrow> distinct (map fst (sort_key f xs))"
  by (simp add: distinct_map)

text \<open>
  C2, as the code has it. The section map has one entry for each section name. When no
  name is that of two header candidates (no category's header pattern matches more than
  one line), the sections of the map, listed in ascending order of their start line, are
  contiguous: each section ends where the next one starts, and the last one ends at the
  number of lines of the text.
\<close>

theorem sections_contiguous:
  assumes "distinct (map fst (sectionStarts (split_on 10 text) (sectionPatterns (code lang))))"
  shows "(\<forall>i. Suc i < length (sort_key s_start (map snd (identifySections text lang)))
            \<longrightarrow> s_end (sort_key s_start (map snd (identifySections text lang)) ! i)
                = s_start (sort_key s_start (map snd (identifySections text lang)) ! Suc i))
         \<and> (sort_key s_start (map snd (identifySections text lang)) \<noteq> []
            \<longrightarrow> s_end (last (sort_key s_start (map snd (identifySections text lang))))
                = length (split_on 10 text))"
proof -
  let ?ls = "split_on 10 text"
  let ?st = "sort_key snd (sectionStarts ?ls (sectionPatterns (code lang)))"
  let ?sp = "section_spans ?ls ?st"
  have d: "distinct (map fst ([] @ ?sp))"
    using assms by (simp add: section_spans_names distinct_names_sort)
  have ids: "identifySections text lang = ?sp"
    using fold_map_set_distinct [OF d] by (simp add: identifySections_def Let_def)
  have "map s_start (map snd ?sp) = map snd ?st"
    using section_spans_starts [of ?ls ?st] by (simp add: comp_def)
  then have "sorted (map s_start (map snd ?sp))" by simp
  then have listing: "sort_key s_start (map snd (identifySections text lang)) = map snd ?sp"
    unfolding ids by (rule sort_key_id_if_sorted)
  have chain: "s_end (map snd ?sp ! i) = s_start (map snd ?sp ! Suc i)" if "Suc i < length (map snd ?sp)" for i
    using that section_spans_chain [of i ?st ?ls] by (simp add: section_spans_length)
  have lst: "s_end (last (map snd ?sp)) = length ?ls" if "map snd ?sp \<noteq> []"
  proof -
    from that have ne: "?st \<noteq> []" by auto
    from that have "?sp \<noteq> []" by simp
    then have "last (map snd ?sp) = snd (last ?sp)" by (rule last_map)
    with section_spans_last [OF ne, of ?ls] show ?thesis by simp
  qed
  show ?thesis unfolding listing using chain lst by blast
qed

definition repeated_header_text :: jstring where
  "repeated_header_text = lit ''SKILLS'' @ [10] @ lit ''ABOUT'' @ [10] @ lit ''LANGUAGES'' @ [10] @ lit ''ABOUT''"

definition two_section_text :: jstring where
  "two_section_text = lit ''EXPERIENCE'' @ [10] @ lit ''x'' @ [10] @ lit ''EDUCATION''"

lemma repeated_header_listing:
  "map (\<lambda>s. (s_start s, s_end s))
     (sort_key s_start (map snd (identifySections repeated_header_text (detectLanguage repeated_header_text))))
   = [(0, 1), (2, 3), (3, 4)]"
  by code_simp

lemma two_section_starts:
  "sectionStarts (split_on 10 two_section_text) (sectionPatterns (code (detectLanguage two_section_text)))
   = [(lit ''experience'', 0), (lit ''education'', 2)]"
  by code_simp

lemma two_section_listing:
  "map (\<lambda>s. (s_start s, s_end s))
     (sort_key s_start (map snd (identifySections two_section_text (detectLanguage two_section_text))))
   = [(0, 2), (2, 3)]"
  by code_simp

theorem sections_contiguous_witness:
  "distinct (map fst (sectionStarts (split_on 10 two_section_text)
                        (sectionPatterns (code (detectLanguage two_section_text)))))
   \<and> length (sort_key s_start (map snd (identifySections two_section_text (detectLanguage two_section_text)))) = 2
   \<and> s_end (sort_key s_start (map snd (identifySections two_section_text (detectLanguage two_section_text))) ! 0)
       = s_start (sort_key s_start (map snd (identifySections two_section_text (detectLanguage two_section_text))) ! Suc 0)
   \<and> s_end (last (sort_key s_start (map snd (identifySections two_section_text (detectLanguage two_section_text)))))
       = length (split_on 10 two_section_text)"
proof -
  let ?L = "sort_key s_start (map snd (identifySections two_section_text (detectLanguage two_section_text)))"
  have d: "distinct (map fst (sectionStarts (split_on 10 two_section_text)
                        (sectionPatterns (code (detectLanguage two_section_text)))))"
    unfolding two_section_starts by (simp add: lit_def)
  from two_section_listing have len: "length ?L = 2"
    by (metis length_map length_Cons list.size(3) numeral_2_eq_2)
  then have ne: "?L \<noteq> []" by (metis list.size(3) zero_neq_numeral)
  from sections_contiguous [OF d] have
    "Suc 0 < length ?L \<longrightarrow> s_end (?L ! 0) = s_start (?L ! Suc 0)"
    and "?L \<noteq> [] \<longrightarrow> s_end (last ?L) = length (split_on 10 two_section_text)"
    by blast+
  with len ne d show ?thesis by (metis One_nat_def one_less_numeral_iff semiring_norm(76))
qed

text \<open>
  The claim as stated fails when a header is repeated: in the text with the lines SKILLS,
  ABOUT, LANGUAGES, ABOUT the second ABOUT replaces the entry of the first, and the
  sections listed by start line are [0,1), [2,3), [3,4).
\<close>

theorem sections_contiguous_counterexample:
  "\<not> (\<forall>i. Suc i < length (sort_key s_start (map snd (identifySections repeated_header_text (detectLanguage repeated_header_text))))
          \<longrightarrow> s_end (sort_key s_start (map snd (identifySections repeated_header_text (detectLanguage repeated_header_text))) ! i)
              = s_start (sort_key s_start (map snd (identifySections repeated_header_text (detectLanguage repeated_header_text))) ! Suc i))"
proof
  let ?L = "sort_key s_start (map snd (identifySections repeated_header_text (detectLanguage repeated_header_text)))"
  assume h: "\<forall>i. Suc i < length ?L \<longrightarrow> s_end (?L ! i) = s_start (?L ! Suc i)"
  from repeated_header_listing have len: "length ?L = 3"
    by (metis length_map length_Cons list.size(3) numeral_3_eq_3)
  from repeated_header_listing len have "(s_start (?L ! 0), s_end (?L ! 0)) = (0, 1)"
    by (metis (no_types, lifting) nth_map nth_Cons_0 zero_less_numeral)
  moreover from repeated_header_listing len have "(s_start (?L ! 1), s_end (?L ! 1)) = (2, 3)"
    by (metis (no_types, lifting) nth_map nth_Cons_0 nth_Cons_Suc One_nat_def one_less_numeral_iff semiring_norm(77))
  moreover from h len have "s_end (?L ! 0) = s_start (?L ! 1)" by simp
  ultimately show False by simp
qed

section \<open>Properties of the experience entries\<close>

























section \<open>Properties of the phone number\<close>

text \<open>The characters that the cleaning step removes: white space, dot, hyphen and parentheses.\<close>

definition is_separator :: "int \<Rightarrow> bool" where
  "is_separator c = (is_space c \<or> c = 46 \<or> c = 45 \<or> c = 40 \<or> c = 41)"

lemma search_from_class:
  "search_from False (Cls False items) p s =
     (case dropWhile (\<lambda>c. \<not> cls_has False items c) s of
        [] \<Rightarrow> None
      | d # ds \<Rightarrow> Some (d # ds, MState (Some d) ds (\<lambda>_. None)))"
  by (induction s arbitrary: p) (auto simp: search_from.simps)

lemma replace_all_class:
  "replace_all_from False (Cls False items) [] p s = filter (\<lambda>c. \<not> cls_has False items c) s"
proof (induction s arbitrary: p rule: length_induct)
  case (1 s)
  let ?P = "\<lambda>c. \<not> cls_has False items c"
  show ?case
  proof (cases "dropWhile ?P s")
    case Nil
    then have "\<forall>c \<in> set s. ?P c" by (metis dropWhile_eq_Nil_conv)
    then have "filter ?P s = s" by (simp add: filter_id_conv)
    moreover have "search_from False (Cls False items) p s = None"
      by (simp only: search_from_class Nil list.case)
    ultimately show ?thesis
      by (simp add: replace_all_from.simps [of False "Cls False items" "[]" p s])
  next
    case (Cons d ds)
    define pre where "pre = takeWhile ?P s"
    have s: "s = pre @ d # ds" unfolding pre_def using Cons by (metis takeWhile_dropWhile_id)
    have pre: "filter ?P pre = pre" unfolding pre_def by (induction s) simp_all
    have d: "\<not> ?P d" using Cons by (metis hd_dropWhile list.sel(1) list.distinct(1))
    have len: "length ds < length s" by (simp add: s)
    have tk: "take (length s - length (d # ds)) s = pre" by (simp add: s)
    from 1 len have ih: "replace_all_from False (Cls False items) [] (Some d) ds = filter ?P ds" by blast
    have "filter ?P s = pre @ filter ?P ds" using d pre by (simp add: s)
    moreover have "search_from False (Cls False items) p s = Some (d # ds, MState (Some d) ds (\<lambda>_. None))"
      by (simp only: search_from_class Cons list.case)
    ultimately show ?thesis using len tk ih
      by (simp add: replace_all_from.simps [of False "Cls False items" "[]" p s])
  qed
qed

lemma trim_no_space: "list_all (\<lambda>c. \<not> is_space c) s \<Longrightarrow> trim s = s"
proof -
  assume a: "list_all (\<lambda>c. \<not> is_space c) s"
  have dw: "dropWhile is_space xs = xs" if "list_all (\<lambda>c. \<not> is_space c) xs" for xs
    using that by (cases xs) simp_all
  from a have "list_all (\<lambda>c. \<not> is_space c) (rev s)" by (simp add: list_all_iff)
  with a show ?thesis by (simp add: trim_def dw)
qed

lemma clean_phone_filter:
  "clean_phone g =
     (let c = filter (\<lambda>ch. \<not> is_separator ch) g
      in if length c < 10 \<or> length c > 15 then [] else c)"
proof -
  have sep: "cls_has False [CSpace, CChar 46, CChar 45, CChar 40, CChar 41] ch = is_separator ch" for ch
    by (auto simp: cls_has_def is_separator_def)
  have r: "replace_all False (Cls False [CSpace, CChar 46, CChar 45, CChar 40, CChar 41]) [] g
        = filter (\<lambda>ch. \<not> is_separator ch) g"
    by (simp add: replace_all_def replace_all_class sep)
  have "list_all (\<lambda>c. \<not> is_space c) (filter (\<lambda>ch. \<not> is_separator ch) g)"
    by (auto simp: list_all_iff is_separator_def)
  from trim_no_space [OF this] r show ?thesis by (simp add: clean_phone_def)
qed

lemma phone_of_info:
  assumes "extractPersonalInfo ctx = Inr info"
  shows "(case exec True phonePattern (join [10] (lines ctx)) of
            None \<Rightarrow> Inr []
          | Some r \<Rightarrow> and_then (capture r 1) (\<lambda>g. Inr (clean_phone g))) = Inr (phone info)"
  using assms
  by (auto simp: extractPersonalInfo_def Let_def and_then_def split: sum.splits)

text \<open>
  C10. The extracted phone is empty when the phone pattern has no match. Otherwise it is
  made from the first capture of the leftmost match, an optional \<open>+\<close> followed by
  10 to 15 digits: white space, dots, hyphens and parentheses are removed, a leading
  \<open>+\<close> stays, and the result is kept when its length, the \<open>+\<close> counted, is
  between 10 and 15, and replaced by the empty text otherwise. So a capture of \<open>+\<close>
  and 15 digits gives the empty phone, and a capture of \<open>+\<close> and 10 digits gives
  itself, 11 characters long.
\<close>

theorem phone_keeps_plus:
  assumes "extractPersonalInfo ctx = Inr info"
  shows "case exec True phonePattern (join [10] (lines ctx)) of
           None \<Rightarrow> phone info = []
         | Some r \<Rightarrow>
             (\<exists>g. m_groups r 1 = Some g
                \<and> phone info = (let c = filter (\<lambda>ch. \<not> is_separator ch) g
                                in if length c < 10 \<or> length c > 15 then [] else c)
                \<and> (\<forall>ds. g = 43 # ds \<and> list_all is_digit ds
                       \<longrightarrow> (length ds = 15 \<longrightarrow> phone info = [])
                         \<and> (length ds = 10 \<longrightarrow> phone info = 43 # ds \<and> length (phone info) = 11)))"
proof (cases "exec True phonePattern (join [10] (lines ctx))")
  case None
  with phone_of_info [OF assms] show ?thesis by simp
next
  case (Some r)
  from exec_captured [OF Some phone_captured] obtain g where g: "m_groups r 1 = Some g"
    by (auto simp: capture_def split: option.splits)
  with phone_of_info [OF assms] Some have ph: "phone info = clean_phone g"
    by (simp add: and_then_def capture_def)
  have keep: "filter (\<lambda>ch. \<not> is_separator ch) (43 # ds) = 43 # ds" if "list_all is_digit ds" for ds
  proof -
    have "\<not> is_separator 43" by (simp add: is_separator_def is_space_def)
    moreover have "\<not> is_separator c" if "is_digit c" for c
      using that by (auto simp: is_separator_def is_space_def is_digit_def)
    ultimately show ?thesis using that by (simp add: filter_id_conv list_all_iff)
  qed
  have "(length ds = 15 \<longrightarrow> phone info = [])
        \<and> (length ds = 10 \<longrightarrow> phone info = 43 # ds \<and> length (phone info) = 11)"
    if "g = 43 # ds \<and> list_all is_digit ds" for ds
    using that keep [of ds] by (auto simp: ph clean_phone_filter Let_def)
  with Some g ph show ?thesis by (simp add: clean_phone_filter)
qed

definition plus15_text :: jstring where
  "plus15_text = lit ''+123456789012345''"

definition plus10_text :: jstring where
  "plus10_text = lit ''+1234567890''"

lemma plus15_capture:
  "map_option (\<lambda>r. m_groups r 1)
     (exec True phonePattern (join [10] (lines (buildExtractionContext plus15_text (lit ''PDF'')))))
   = Some (Some (43 # lit ''123456789012345''))"
  by code_simp

lemma plus10_capture:
  "map_option (\<lambda>r. m_groups r 1)
     (exec True phonePattern (join [10] (lines (buildExtractionContext plus10_text (lit ''PDF'')))))
   = Some (Some (43 # lit ''1234567890''))"
  by code_simp

theorem phone_keeps_plus_witness:
  "(\<exists>info. extractPersonalInfo (buildExtractionContext plus15_text (lit ''PDF'')) = Inr info
           \<and> phone info = [])
   \<and> (\<exists>info. extractPersonalInfo (buildExtractionContext plus10_text (lit ''PDF'')) = Inr info
           \<and> phone info = 43 # lit ''1234567890'' \<and> length (phone info) = 11)"
proof -
  have digits: "list_all is_digit (lit ''123456789012345'')" "length (lit ''123456789012345'') = 15"
    "list_all is_digit (lit ''1234567890'')" "length (lit ''1234567890'') = 10"
    by (simp_all add: lit_def is_digit_def)
  obtain info15 where i15: "extractPersonalInfo (buildExtractionContext plus15_text (lit ''PDF'')) = Inr info15"
    using extractPersonalInfo_ok by blast
  from plus15_capture obtain r15 where
    r15: "exec True phonePattern (join [10] (lines (buildExtractionContext plus15_text (lit ''PDF'')))) = Some r15"
    "m_groups r15 1 = Some (43 # lit ''123456789012345'')"
    by auto
  from phone_keeps_plus [OF i15] have
    "\<exists>g. m_groups r15 1 = Some g
        \<and> phone info15 = (let c = filter (\<lambda>ch. \<not> is_separator ch) g
                          in if length c < 10 \<or> length c > 15 then [] else c)
        \<and> (\<forall>ds. g = 43 # ds \<and> list_all is_digit ds
               \<longrightarrow> (length ds = 15 \<longrightarrow> phone info15 = [])
                 \<and> (length ds = 10 \<longrightarrow> phone info15 = 43 # ds \<and> length (phone info15) = 11))"
    by (simp only: r15(1) option.case)
  with r15(2) digits have "phone info15 = []" by (metis option.inject)
  moreover
  obtain info10 where i10: "extractPersonalInfo (buildExtractionContext plus10_text (lit ''PDF'')) = Inr info10"
    using extractPersonalInfo_ok by blast
  from plus10_capture obtain r10 where
    r10: "exec True phonePattern (join [10] (lines (buildExtractionContext plus10_text (lit ''PDF'')))) = Some r10"
    "m_groups r10 1 = Some (43 # lit ''1234567890'')"
    by auto
  from phone_keeps_plus [OF i10] have
    "\<exists>g. m_groups r10 1 = Some g
        \<and> phone info10 = (let c = filter (\<lambda>ch. \<not> is_separator ch) g
                          in if length c < 10 \<or> length c > 15 then [] else c)
        \<and> (\<forall>ds. g = 43 # ds \<and> list_all is_digit ds
               \<longrightarrow> (length ds = 15 \<longrightarrow> phone info10 = [])
                 \<and> (length ds = 10 \<longrightarrow> phone info10 = 43 # ds \<and> length (phone info10) = 11))"
    by (simp only: r10(1) option.case)
  with r10(2) digits
  have "phone info10 = 43 # lit ''1234567890'' \<and> length (phone info10) = 11" by (metis option.inject)
  ultimately show ?thesis using i15 i10 by blast
qed

section \<open>Properties of the extraction result\<close>

lemma result_fields:
  assumes "performAdvancedExtraction currentYear text docType = Inr r"
  shows "extractPersonalInfo (buildExtractionContext text docType) = Inr (personal r)"
    and "extractExperienceAdvanced currentYear (buildExtractionContext text docType) = Inr (experience r)"
    and "education r = extractEducationAdvanced (buildExtractionContext text docType)"
    and "skills r = extractSkillsAdvanced (buildExtractionContext text docType)"
    and "confidence_score r
           = calculateConfidenceScore (personal r) (experience r) (education r) (skills r)"
proof -
  let ?c = "buildExtractionContext text docType"
  obtain p where p: "extractPersonalInfo ?c = Inr p" using extractPersonalInfo_ok by blast
  obtain e where e: "extractExperienceAdvanced currentYear ?c = Inr e"
    using extractExperienceAdvanced_ok by blast
  obtain l where l: "extractLanguagesAdvanced ?c = Inr l" using extractLanguagesAdvanced_ok by blast
  from assms p e l have "personal r = p" "experience r = e"
    "education r = extractEducationAdvanced ?c" "skills r = extractSkillsAdvanced ?c"
    "confidence_score r = calculateConfidenceScore p e (extractEducationAdvanced ?c) (extractSkillsAdvanced ?c)"
    by (auto simp: performAdvancedExtraction_def Let_def and_then_def)
  with p e show "extractPersonalInfo ?c = Inr (personal r)"
    and "extractExperienceAdvanced currentYear ?c = Inr (experience r)"
    and "education r = extractEducationAdvanced ?c"
    and "skills r = extractSkillsAdvanced ?c"
    and "confidence_score r
           = calculateConfidenceScore (personal r) (experience r) (education r) (skills r)"
    by simp_all
qed




section \<open>The end-to-end scenario\<close>

definition scenario_text :: jstring where
  "scenario_text =
     lit ''JOHN SMITH'' @ [10] @ lit ''john.smith@example.com'' @ [10] @ lit ''+1234567890'' @ [10]
     @ lit ''EXPERIENCE'' @ [10] @ lit ''Software Engineer | Acme Corp | NYC'' @ [10]
     @ lit ''2019 - 2022'' @ [10] @ lit ''- Built scalable APIs''"

lemma scenario_language:
  "detectLanguage scenario_text = \<lparr> code = En, confidence = 1, frenchScore = 0, englishScore = 2 \<rparr>"
  by code_simp

lemma scenario_sections:
  "identifySections scenario_text \<lparr> code = En, confidence = 1, frenchScore = 0, englishScore = 2 \<rparr>
   = [(lit ''experience'',
       \<lparr> s_start = 3, s_end = 7,
         s_content = lit ''EXPERIENCE'' @ [10] @ lit ''Software Engineer | Acme Corp | NYC''
           @ [10] @ lit ''2019 - 2022'' @ [10] @ lit ''- Built scalable APIs'' \<rparr>)]"
  by code_simp

lemma scenario_lines:
  "filter (\<lambda>l. length l > 0) (map trim (split_on 10 scenario_text))
   = [lit ''JOHN SMITH'', lit ''john.smith@example.com'', lit ''+1234567890'',
      lit ''EXPERIENCE'', lit ''Software Engineer | Acme Corp | NYC'', lit ''2019 - 2022'',
      lit ''- Built scalable APIs'']"
  by code_simp

lemma scenario_context:
  "buildExtractionContext scenario_text dt =
     \<lparr> language = \<lparr> code = En, confidence = 1, frenchScore = 0, englishScore = 2 \<rparr>,
       sections = [(lit ''experience'',
                    \<lparr> s_start = 3, s_end = 7,
                      s_content = lit ''EXPERIENCE'' @ [10] @ lit ''Software Engineer | Acme Corp | NYC''
                        @ [10] @ lit ''2019 - 2022'' @ [10] @ lit ''- Built scalable APIs'' \<rparr>)],
       lines = [lit ''JOHN SMITH'', lit ''john.smith@example.com'', lit ''+1234567890'',
                lit ''EXPERIENCE'', lit ''Software Engineer | Acme Corp | NYC'', lit ''2019 - 2022'',
                lit ''- Built scalable APIs''],
       documentType = dt \<rparr>"
  by (simp only: buildExtractionContext_def Let_def scenario_language scenario_sections scenario_lines)

lemma scenario_personal:
  "extractPersonalInfo
     \<lparr> language = \<lparr> code = En, confidence = 1, frenchScore = 0, englishScore = 2 \<rparr>,
       sections = [(lit ''experience'',
                    \<lparr> s_start = 3, s_end = 7,
                      s_content = lit ''EXPERIENCE'' @ [10] @ lit ''Software Engineer | Acme Corp | NYC''
                        @ [10] @ lit ''2019 - 2022'' @ [10] @ lit ''- Built scalable APIs'' \<rparr>)],
       lines = [lit ''JOHN SMITH'', lit ''john.smith@example.com'', lit ''+1234567890'',
                lit ''EXPERIENCE'', lit ''Software Engineer | Acme Corp | NYC'', lit ''2019 - 2022'',
                lit ''- Built scalable APIs''],
       documentType = dt \<rparr>
   = Inr \<lparr> full_name = lit ''John Smith'', position = lit ''Software Engineer | Acme Corp | NYC'',
           email = lit ''john.smith@example.com'', phone = lit ''+1234567890'',
           location = [], linkedin = [], age = None, gender = None \<rparr>"
  by code_simp

lemma scenario_experience:
  "extractExperienceAdvanced currentYear
     \<lparr> language = \<lparr> code = En, confidence = 1, frenchScore = 0, englishScore = 2 \<rparr>,
       sections = [(lit ''experience'',
                    \<lparr> s_start = 3, s_end = 7,
                      s_content = lit ''EXPERIENCE'' @ [10] @ lit ''Software Engineer | Acme Corp | NYC''
                        @ [10] @ lit ''2019 - 2022'' @ [10] @ lit ''- Built scalable APIs'' \<rparr>)],
       lines = [lit ''JOHN SMITH'', lit ''john.smith@example.com'', lit ''+1234567890'',
                lit ''EXPERIENCE'', lit ''Software Engineer | Acme Corp | NYC'', lit ''2019 - 2022'',
                lit ''- Built scalable APIs''],
       documentType = dt \<rparr>
   = Inr [\<lparr> exp_position = lit ''EXPERIENCE'', exp_company = lit ''Acme Corp'',
             exp_location = lit ''NYC'', startDate = lit ''2019'', endDate = lit ''2022'',
             exp_description = lit ''Built scalable APIs'', duration = lit ''3 years'' \<rparr>]"
  by code_simp

lemma scenario_result:
  assumes "performAdvancedExtraction currentYear scenario_text dt = Inr r"
  shows "personal r = \<lparr> full_name = lit ''John Smith'', position = lit ''Software Engineer | Acme Corp | NYC'',
           email = lit ''john.smith@example.com'', phone = lit ''+1234567890'',
           location = [], linkedin = [], age = None, gender = None \<rparr>"
    and "experience r = [\<lparr> exp_position = lit ''EXPERIENCE'', exp_company = lit ''Acme Corp'',
             exp_location = lit ''NYC'', startDate = lit ''2019'', endDate = lit ''2022'',
             exp_description = lit ''Built scalable APIs'', duration = lit ''3 years'' \<rparr>]"
  using result_fields(1) [OF assms] result_fields(2) [OF assms]
  by (simp_all only: scenario_context scenario_personal scenario_experience sum.inject)

text \<open>
  C1, as the code has it. For the text of the scenario, whatever the document type and the
  calendar year, the engine returns the name \<open>John Smith\<close>, the email
  \<open>john.smith@example.com\<close>, the phone \<open>+1234567890\<close> with its plus sign, and exactly
  one experience entry, with the company \<open>Acme Corp\<close>, the location \<open>NYC\<close>, the start
  \<open>2019\<close>, the end \<open>2022\<close>, the duration \<open>3 years\<close> and a description that contains
  \<open>Built scalable APIs\<close>.
\<close>

theorem scenario_extraction:
  "\<exists>r e. performAdvancedExtraction currentYear scenario_text dt = Inr r
       \<and> full_name (personal r) = lit ''John Smith''
       \<and> email (personal r) = lit ''john.smith@example.com''
       \<and> phone (personal r) = lit ''+1234567890''
       \<and> experience r = [e]
       \<and> exp_company e = lit ''Acme Corp''
       \<and> exp_location e = lit ''NYC''
       \<and> startDate e = lit ''2019''
       \<and> endDate e = lit ''2022''
       \<and> duration e = lit ''3 years''
       \<and> str_includes (exp_description e) (lit ''Built scalable APIs'')"
proof -
  obtain r where r: "performAdvancedExtraction currentYear scenario_text dt = Inr r"
    using performAdvancedExtraction_ok by blast
  have "str_includes (lit ''Built scalable APIs'') (lit ''Built scalable APIs'')"
    by (simp add: lit_def)
  with r scenario_result [OF r] show ?thesis by simp
qed

text \<open>
  The claim as stated fails on the phone, which keeps its plus sign, and on the position of
  the entry, for which the look-back takes the header line \<open>EXPERIENCE\<close>, the first line
  before the date that looks like a position.
\<close>

theorem scenario_counterexample:
  "\<not> (\<exists>r e. performAdvancedExtraction 2026 scenario_text (lit ''PDF'') = Inr r
          \<and> full_name (personal r) = lit ''John Smith''
          \<and> email (personal r) = lit ''john.smith@example.com''
          \<and> phone (personal r) = lit ''1234567890''
          \<and> experience r = [e]
          \<and> exp_position e = lit ''Software Engineer''
          \<and> exp_company e = lit ''Acme Corp''
          \<and> exp_location e = lit ''NYC''
          \<and> startDate e = lit ''2019''
          \<and> endDate e = lit ''2022''
          \<and> duration e = lit ''3 years''
          \<and> str_includes (exp_description e) (lit ''Built scalable APIs''))"
proof
  assume "\<exists>r e. performAdvancedExtraction 2026 scenario_text (lit ''PDF'') = Inr r
          \<and> full_name (personal r) = lit ''John Smith''
          \<and> email (personal r) = lit ''john.smith@example.com''
          \<and> phone (personal r) = lit ''1234567890''
          \<and> experience r = [e]
          \<and> exp_position e = lit ''Software Engineer''
          \<and> exp_company e = lit ''Acme Corp''
          \<and> exp_location e = lit ''NYC''
          \<and> startDate e = lit ''2019''
          \<and> endDate e = lit ''2022''
          \<and> duration e = lit ''3 years''
          \<and> str_includes (exp_description e) (lit ''Built scalable APIs'')"
  then obtain r where r: "performAdvancedExtraction 2026 scenario_text (lit ''PDF'') = Inr r"
    and p: "phone (personal r) = lit ''1234567890''" by blast
  from scenario_result(1) [OF r] p show False by (simp add: lit_def)
qed

end
